theory Spec2Isabelle
  imports Complex_Main "HOL-Library.Sublist" "HOL-Library.List_Lexorder"
begin

section \<open>Python strings\<close>

text \<open>
  A Python \<open>str\<close> is a sequence of Unicode code points, and \<open>len\<close>, indexing, comparison
  and the \<open>re\<close> module all work on code points.  A string is therefore a list of natural
  numbers; \<open>u\<close> writes an ASCII literal.  Comparison of lists (\<open><\<close>) is the lexicographic
  order on code points, which is the order of Python's \<open><\<close> on \<open>str\<close>.
\<close>

type_synonym ustring = "nat list"

definition u :: "string \<Rightarrow> ustring" where
  "u s = map of_char s"

text \<open>\<open>s.startswith(p)\<close>, \<open>s.endswith(e)\<close> and \<open>sub in s\<close>.\<close>

definition startswith :: "ustring \<Rightarrow> ustring \<Rightarrow> bool" where
  "startswith s p = (take (length p) s = p)"

definition endswith :: "ustring \<Rightarrow> ustring \<Rightarrow> bool" where
  "endswith s e = (length e \<le> length s \<and> drop (length s - length e) s = e)"

fun contains :: "ustring \<Rightarrow> ustring \<Rightarrow> bool" where
  "contains [] sub = (sub = [])"
| "contains (c # cs) sub = (startswith (c # cs) sub \<or> contains cs sub)"

text \<open>
  \<open>s.replace(old, new)\<close>: every non-overlapping occurrence of \<open>old\<close>, found from the left,
  is replaced.  For an empty \<open>old\<close> Python puts \<open>new\<close> before every character and at the end.
\<close>

function replace_from :: "ustring \<Rightarrow> ustring \<Rightarrow> ustring \<Rightarrow> ustring" where
  "replace_from old new [] = []"
| "replace_from old new (c # cs) =
     (if startswith (c # cs) old
      then new @ replace_from old new (drop (length old - 1) cs)
      else c # replace_from old new cs)"
  by pat_completeness auto
termination
  by (relation "measure (\<lambda>(old, new, s). length s)") auto

definition replace :: "ustring \<Rightarrow> ustring \<Rightarrow> ustring \<Rightarrow> ustring" where
  "replace s old new =
     (if old = [] then new @ concat (map (\<lambda>c. c # new) s) else replace_from old new s)"

section \<open>Errors\<close>

text \<open>The exceptions that the modelled code can raise.\<close>

datatype pyerror = KeyError | IndexError | TypeError | ValueError | OverflowError
  | UnboundLocalError

text \<open>Sequencing of steps that can raise.\<close>

definition then_do :: "'e + 'a \<Rightarrow> ('a \<Rightarrow> 'e + 'b) \<Rightarrow> 'e + 'b" where
  "then_do m f = (case m of Inl e \<Rightarrow> Inl e | Inr x \<Rightarrow> f x)"

text \<open>\<open>xs[i]\<close> for a non-negative index: out of range is an \<open>IndexError\<close>.\<close>

definition item_at :: "'a list \<Rightarrow> nat \<Rightarrow> pyerror + 'a" where
  "item_at xs i = (if i < length xs then Inr (xs ! i) else Inl IndexError)"

section \<open>Python values\<close>

text \<open>
  A Python float is a double: a real number, plus or minus infinity, or NaN.  Every
  comparison with NaN is false.  The two zeros, which compare equal, are one value here.
\<close>

datatype pyfloat = Fin real | PInf | NInf | NaN

fun flt :: "pyfloat \<Rightarrow> pyfloat \<Rightarrow> bool" where
  "flt NaN _ = False"
| "flt _ NaN = False"
| "flt _ NInf = False"
| "flt NInf _ = True"
| "flt PInf _ = False"
| "flt _ PInf = True"
| "flt (Fin a) (Fin b) = (a < b)"

text \<open>The values a JSON document gives a coordinate: null, a number or a string.\<close>

datatype pyval = VNone | VInt int | VFloat pyfloat | VStr ustring

section \<open>The interpreter\<close>

text \<open>
  The program calls into the interpreter for what it does not compute itself: the
  character classes \<open>\w\<close>, \<open>\s\<close> and \<open>\d\<close> of \<open>re\<close> (on a \<open>str\<close> pattern these are
  \<open>str.isalnum\<close> or the underscore, \<open>str.isspace\<close> and \<open>str.isdecimal\<close> of the character, read
  from the Unicode database), \<open>str.lower\<close> (which is not character by character), and the
  built-in \<open>float\<close>.  They are parameters of the model: every function that uses one takes
  the interpreter \<open>rt\<close>, and what is proved of it holds for every interpreter.
\<close>

record runtime =
  py_isalnum :: "nat \<Rightarrow> bool"
  py_isspace :: "nat \<Rightarrow> bool"
  py_isdecimal :: "nat \<Rightarrow> bool"
  py_lower :: "ustring \<Rightarrow> ustring"
  py_float :: "pyval \<Rightarrow> pyerror + pyfloat"

text \<open>
  What CPython answers on ASCII: the alphanumerics are the digits and the letters, the
  whitespace is 9 to 13 and 28 to 32, the decimals are the digits, and \<open>lower\<close> of an ASCII
  string maps \<open>A\<close> to \<open>Z\<close> to \<open>a\<close> to \<open>z\<close>.
\<close>

definition ascii_digit :: "nat \<Rightarrow> bool" where
  "ascii_digit c = (48 \<le> c \<and> c \<le> 57)"

definition ascii_alnum :: "nat \<Rightarrow> bool" where
  "ascii_alnum c = (ascii_digit c \<or> (65 \<le> c \<and> c \<le> 90) \<or> (97 \<le> c \<and> c \<le> 122))"

definition ascii_space :: "nat \<Rightarrow> bool" where
  "ascii_space c = ((9 \<le> c \<and> c \<le> 13) \<or> (28 \<le> c \<and> c \<le> 32))"

definition ascii_lower :: "nat \<Rightarrow> nat" where
  "ascii_lower c = (if 65 \<le> c \<and> c \<le> 90 then c + 32 else c)"

definition is_ascii :: "ustring \<Rightarrow> bool" where
  "is_ascii s = list_all (\<lambda>c. c < 128) s"

definition ascii_runtime :: "runtime \<Rightarrow> bool" where
  "ascii_runtime rt =
     ((\<forall>c. c < 128 \<longrightarrow> py_isalnum rt c = ascii_alnum c \<and> py_isspace rt c = ascii_space c
                          \<and> py_isdecimal rt c = ascii_digit c)
      \<and> (\<forall>s. is_ascii s \<longrightarrow> py_lower rt s = map ascii_lower s))"

section \<open>Dates and times (Python's datetime)\<close>

text \<open>
  A \<open>datetime\<close> object: the calendar fields and the offset of its time zone from UTC in
  seconds, \<open>None\<close> for a naive one.  Years run from 1 to 9999; arithmetic that leaves this
  range raises \<open>OverflowError\<close>.
\<close>

record pydatetime =
  year :: int
  month :: int
  day :: int
  hour :: int
  minute :: int
  second :: int
  microsecond :: int
  utcoffset :: "int option"

definition is_leap :: "int \<Rightarrow> bool" where
  "is_leap y = (y mod 4 = 0 \<and> (y mod 100 \<noteq> 0 \<or> y mod 400 = 0))"

definition days_in_month :: "int \<Rightarrow> int \<Rightarrow> int" where
  "days_in_month y m =
     (if m = 2 then (if is_leap y then 29 else 28)
      else if m = 4 \<or> m = 6 \<or> m = 9 \<or> m = 11 then 30 else 31)"

definition days_before_year :: "int \<Rightarrow> int" where
  "days_before_year y = (y - 1) * 365 + (y - 1) div 4 - (y - 1) div 100 + (y - 1) div 400"

definition days_before_month :: "int \<Rightarrow> int \<Rightarrow> int" where
  "days_before_month y m = (\<Sum>k \<leftarrow> [1 ..< nat m]. days_in_month y (int k))"

text \<open>The ordinal of a date: 1 for the first of January of the year 1.\<close>

definition ymd2ord :: "int \<Rightarrow> int \<Rightarrow> int \<Rightarrow> int" where
  "ymd2ord y m d = days_before_year y + days_before_month y m + d"

text \<open>The date of an ordinal, as the 400, 100, 4 and 1 year cycles give it.\<close>

definition ord2ymd :: "int \<Rightarrow> int \<times> int \<times> int" where
  "ord2ymd n0 =
     (let n = n0 - 1;
          n400 = n div 146097; n = n mod 146097;
          n100 = n div 36524; n = n mod 36524;
          n4 = n div 1461; n = n mod 1461;
          n1 = n div 365; n = n mod 365;
          y = n400 * 400 + 1 + n100 * 100 + n4 * 4 + n1
      in if n1 = 4 \<or> n100 = 4 then (y - 1, 12, 31)
         else (let m = (n + 50) div 32;
                   preceding = days_before_month y m;
                   (m, preceding) = (if preceding > n
                                     then (m - 1, preceding - days_in_month y (m - 1))
                                     else (m, preceding))
               in (y, m, n - preceding + 1)))"

definition max_ordinal :: int where
  "max_ordinal = 3652059"

text \<open>\<open>dt + timedelta(seconds=delta)\<close>, the time zone kept.\<close>

definition add_seconds :: "pydatetime \<Rightarrow> int \<Rightarrow> pyerror + pydatetime" where
  "add_seconds dt delta =
     (let secs = hour dt * 3600 + minute dt * 60 + second dt + delta;
          ordinal = ymd2ord (year dt) (month dt) (day dt) + secs div 86400;
          s = secs mod 86400;
          (y, m, d) = ord2ymd ordinal
      in if ordinal < 1 \<or> max_ordinal < ordinal then Inl OverflowError
         else Inr (dt\<lparr>year := y, month := m, day := d, hour := s div 3600,
                       minute := s mod 3600 div 60, second := s mod 60\<rparr>))"

text \<open>\<open>dt.astimezone(utc)\<close> for an aware datetime, and the instant of an aware datetime in UTC
  (microseconds from the start of the year 1), by which aware datetimes are compared.\<close>

definition to_utc :: "pydatetime \<Rightarrow> int \<Rightarrow> pyerror + pydatetime" where
  "to_utc dt offset = then_do (add_seconds dt (- offset)) (\<lambda>d. Inr (d\<lparr>utcoffset := Some 0\<rparr>))"

definition instant :: "pydatetime \<Rightarrow> int" where
  "instant dt =
     ((ymd2ord (year dt) (month dt) (day dt) * 86400 + hour dt * 3600 + minute dt * 60
        + second dt - (case utcoffset dt of None \<Rightarrow> 0 | Some off \<Rightarrow> off)) * 1000000
      + microsecond dt)"

text \<open>\<open>%02d\<close>, \<open>%04d\<close> and \<open>%06d\<close> of a number in range.\<close>

definition digit_char :: "int \<Rightarrow> nat" where
  "digit_char k = 48 + nat (k mod 10)"

definition pad2 :: "int \<Rightarrow> ustring" where
  "pad2 n = [digit_char (n div 10), digit_char n]"

definition pad4 :: "int \<Rightarrow> ustring" where
  "pad4 n = pad2 (n div 100) @ pad2 (n mod 100)"

definition pad6 :: "int \<Rightarrow> ustring" where
  "pad6 n = pad2 (n div 10000) @ pad4 (n mod 10000)"

text \<open>\<open>dt.isoformat()\<close> without the offset, and the whole of it for a datetime in UTC.\<close>

definition iso_body :: "pydatetime \<Rightarrow> ustring" where
  "iso_body dt =
     pad4 (year dt) @ u ''-'' @ pad2 (month dt) @ u ''-'' @ pad2 (day dt) @ u ''T''
     @ pad2 (hour dt) @ u '':'' @ pad2 (minute dt) @ u '':'' @ pad2 (second dt)
     @ (if microsecond dt = 0 then [] else u ''.'' @ pad6 (microsecond dt))"

definition isoformat_utc :: "pydatetime \<Rightarrow> ustring" where
  "isoformat_utc dt = iso_body dt @ u ''+00:00''"

text \<open>
  \<open>dateutil.parser.parse\<close> is a library outside the program and a parameter of the model:
  for a string it returns a datetime, or raises \<open>ParserError\<close> (a \<open>ValueError\<close>) when it
  cannot read the string, or \<open>OverflowError\<close> when the date read exceeds the machine's
  integers.
\<close>

datatype parse_result = Parsed pydatetime | ParseValueError | ParseOverflowError

section \<open>The metadata record\<close>

text \<open>
  The record is a Python dict; a field of type \<open>option\<close> is \<open>None\<close> when the key is absent or
  holds \<open>None\<close> (the code tests these fields by truthiness or reads them with \<open>get\<close>; where
  \<open>get\<close> has a default, the key is taken to be absent rather than to hold \<open>None\<close>).  The
  identifier \<open>geonetwork_uri\<close> is always there.
  \<open>start_datetime\<close> and \<open>end_datetime\<close> are written by \<open>update_datetimes\<close> only, which tests
  them with \<open>in\<close>: for them \<open>None\<close> means that the key is absent.  They hold text until
  \<open>format_start_end_datetimes_stac\<close> overwrites them with datetime objects; the converted
  values are kept in \<open>start_stamp\<close> and \<open>end_stamp\<close>.
\<close>

record metadata =
  geonetwork_uri :: ustring
  title :: "ustring option"
  abstract :: "ustring option"
  subjects :: "ustring list option"
  creator :: "ustring option"
  publisher :: "ustring option"
  distributor :: "ustring option"
  provider :: "(ustring \<times> ustring) list option"
  license :: "ustring option"
  crs :: "ustring option"
  references :: "ustring option"
  bbox :: "pyval list option"
  geographic_extent :: "pyval list option"
  created :: "ustring option"
  date :: "ustring option"
  issued :: "ustring option"
  modified :: "ustring option"
  start_datetime :: "ustring option"
  end_datetime :: "ustring option"
  start_stamp :: "pydatetime option"
  end_stamp :: "pydatetime option"
  assets :: "ustring list"
  data_assets :: "ustring list"
  thumbnail_assets :: "ustring list"
  variable_family :: "ustring option"
  stac_id :: "ustring option"
  stac_collection :: "ustring option"
  in_stac :: "ustring option"
  reason :: "ustring option"

definition blank_record :: "ustring \<Rightarrow> metadata" where
  "blank_record uri = \<lparr>geonetwork_uri = uri, title = None, abstract = None, subjects = Some [],
     creator = None, publisher = None, distributor = None, provider = Some [], license = None,
     crs = None, references = None, bbox = None, geographic_extent = None, created = None,
     date = None, issued = None, modified = None, start_datetime = None, end_datetime = None,
     start_stamp = None, end_stamp = None, assets = [], data_assets = [],
     thumbnail_assets = [], variable_family = None, stac_id = None, stac_collection = None,
     in_stac = None, reason = None\<rparr>"

text \<open>Truthiness of an optional string: absent, \<open>None\<close> and the empty string are false.\<close>

definition truthy :: "ustring option \<Rightarrow> bool" where
  "truthy v = (case v of None \<Rightarrow> False | Some s \<Rightarrow> s \<noteq> [])"

section \<open>The progress store (csw\_to\_stac.py)\<close>

text \<open>
  \<open>processed_records\<close> is a dict from record identifier to record; \<open>dict.update\<close> keeps the
  position of a key that is there and appends a new one.  After every call the dict is
  written out again, as a table with one row per value and as a JSON document.
\<close>

fun dict_update :: "('k \<times> 'v) list \<Rightarrow> 'k \<Rightarrow> 'v \<Rightarrow> ('k \<times> 'v) list" where
  "dict_update [] k v = [(k, v)]"
| "dict_update ((k', v') # kvs) k v =
     (if k' = k then (k, v) # kvs else (k', v') # dict_update kvs k v)"

record progress_store =
  processed_records :: "(ustring \<times> metadata) list"
  csv_export :: "metadata list"
  json_document :: "(ustring \<times> metadata) list"

definition persist :: "progress_store \<Rightarrow> progress_store" where
  "persist st = st\<lparr>csv_export := map snd (processed_records st),
                    json_document := processed_records st\<rparr>"

definition mark :: "progress_store \<Rightarrow> metadata \<Rightarrow> ustring \<Rightarrow> ustring \<Rightarrow> metadata \<times> progress_store" where
  "mark st csw_record status why =
     (let r = csw_record\<lparr>in_stac := Some status, reason := Some why\<rparr>
      in (r, st\<lparr>processed_records := dict_update (processed_records st) (geonetwork_uri r) r\<rparr>))"

definition update_progress ::
    "progress_store \<Rightarrow> metadata \<Rightarrow> ustring \<Rightarrow> ustring \<Rightarrow> metadata \<times> progress_store" where
  "update_progress st csw_record status why =
     (let (r, st') =
        (if status = u ''failed'' \<and> why = u ''no_assets''
           then mark st csw_record (u ''failed'') (u ''no_assets'')
         else if status = u ''failed'' \<and> why = u ''already_exists''
           then mark st csw_record (u ''failed'') (u ''already_exists'')
         else if status = u ''failed'' \<and> why = u ''no_data''
           then mark st csw_record (u ''failed'') (u ''no_data'')
         else if status = u ''successful'' \<and> why = u ''Ok''
           then mark st csw_record (u ''successful'') (u ''Ok'')
         else (csw_record, st))
      in (r, persist st'))"

text \<open>
  \<open>check_stac_ok\<close>: the result, the record and the store.  \<open>all_stac_item_ids\<close> are the
  identifiers of all items of the catalog.
\<close>

definition check_stac_ok ::
    "progress_store \<Rightarrow> ustring list \<Rightarrow> metadata \<Rightarrow> bool \<times> metadata \<times> progress_store" where
  "check_stac_ok st all_stac_item_ids md =
     (if length (assets md) = 0
        then (False, update_progress st md (u ''failed'') (u ''no_assets''))
      else if length (data_assets md) = 0 \<and> length (thumbnail_assets md) = 0
        then (False, update_progress st md (u ''failed'') (u ''no_data''))
      else if \<not> truthy (title md)
        then (False, update_progress st md (u ''failed'') (u ''record_no_title''))
      else if the (title md) \<in> set all_stac_item_ids
        then (False, update_progress st md (u ''failed'') (u ''already_exists''))
      else (True, md, st))"

text \<open>A record with a data asset and no title.\<close>

definition record_untitled :: metadata where
  "record_untitled = (blank_record (u ''r1''))\<lparr>assets := [u ''https://example.org/a.nc''],
                                               data_assets := [u ''https://example.org/a.nc'']\<rparr>"

definition empty_store :: progress_store where
  "empty_store = \<lparr>processed_records = [], csv_export = [], json_document = []\<rparr>"

section \<open>Temporal window (utils.py, update\_datetimes)\<close>

text \<open>The body of the loop for one key whose value \<open>v\<close> is present and true.\<close>

definition widen :: "ustring \<Rightarrow> metadata \<Rightarrow> metadata" where
  "widen v md =
     (let md1 = (case start_datetime md of
                   Some s \<Rightarrow> if v < s then md\<lparr>start_datetime := Some v\<rparr> else md
                 | None \<Rightarrow> md);
          md2 = (case end_datetime md1 of
                   Some e \<Rightarrow> if v > e then md1\<lparr>end_datetime := Some v\<rparr> else md1
                 | None \<Rightarrow> md1);
          md3 = (if start_datetime md2 = None then md2\<lparr>start_datetime := Some v\<rparr> else md2);
          md4 = (if end_datetime md3 = None then md3\<lparr>end_datetime := Some v\<rparr> else md3)
      in md4)"

definition datetime_keys :: "(metadata \<Rightarrow> ustring option) list" where
  "datetime_keys = [created, date, issued, modified]"

definition scan_key :: "metadata \<Rightarrow> (metadata \<Rightarrow> ustring option) \<Rightarrow> metadata" where
  "scan_key md key = (if truthy (key md) then widen (the (key md)) md else md)"

definition default_start :: ustring where
  "default_start = u ''1970-01-01T00:00:00Z''"

definition default_end :: ustring where
  "default_end = u ''2100-01-01T00:00:00Z''"

definition update_datetimes :: "metadata \<Rightarrow> metadata" where
  "update_datetimes md =
     (let md1 = foldl scan_key md datetime_keys;
          md2 = (if start_datetime md1 = None
                 then md1\<lparr>start_datetime := Some default_start\<rparr> else md1);
          md3 = (if end_datetime md2 = None \<or> end_datetime md2 = start_datetime md2
                 then md2\<lparr>end_datetime := Some default_end\<rparr> else md2)
      in md3)"

section \<open>Identifiers (utils.py, custom\_slugify)\<close>

text \<open>
  \<open>re.sub(r'[-\s]+', separator, text)\<close>: every maximal run of hyphens and whitespace
  becomes one separator.
\<close>

definition sep_char :: "runtime \<Rightarrow> nat \<Rightarrow> bool" where
  "sep_char rt c = (c = 45 \<or> py_isspace rt c)"

function collapse_runs :: "runtime \<Rightarrow> ustring \<Rightarrow> ustring \<Rightarrow> ustring" where
  "collapse_runs rt separator [] = []"
| "collapse_runs rt separator (c # cs) =
     (if sep_char rt c then separator @ collapse_runs rt separator (dropWhile (sep_char rt) cs)
      else c # collapse_runs rt separator cs)"
  by pat_completeness auto
termination
  by (relation "measure (\<lambda>(rt, separator, s). length s)")
     (auto simp: length_dropWhile_le less_Suc_eq_le)

text \<open>
  \<open>re.sub(r'\.(\d)', r'.\1', text)\<close>: a dot followed by a digit is replaced by the dot and
  that digit.
\<close>

fun dot_digit :: "runtime \<Rightarrow> ustring \<Rightarrow> ustring" where
  "dot_digit rt (c # d # cs) =
     (if c = 46 \<and> py_isdecimal rt d then [46, d] @ dot_digit rt cs
      else c # dot_digit rt (d # cs))"
| "dot_digit rt cs = cs"

text \<open>
  \<open>re.sub(r'[^\w\s.-]', '', text)\<close>: only word characters (alphanumerics and the
  underscore), whitespace, the dot and the hyphen are kept.
\<close>

definition is_word :: "runtime \<Rightarrow> nat \<Rightarrow> bool" where
  "is_word rt c = (py_isalnum rt c \<or> c = 95)"

definition kept :: "runtime \<Rightarrow> nat \<Rightarrow> bool" where
  "kept rt c = (is_word rt c \<or> py_isspace rt c \<or> c = 46 \<or> c = 45)"

definition custom_slugify_with :: "runtime \<Rightarrow> ustring \<Rightarrow> ustring \<Rightarrow> ustring" where
  "custom_slugify_with rt text separator =
     (let text1 = collapse_runs rt separator text;
          text2 = dot_digit rt text1;
          text3 = filter (kept rt) text2
      in py_lower rt text3)"

text \<open>Every caller leaves the separator at its default, the underscore.\<close>

definition custom_slugify :: "runtime \<Rightarrow> ustring \<Rightarrow> ustring" where
  "custom_slugify rt text = custom_slugify_with rt text (u ''_'')"

section \<open>Regular expressions (the part of Python's re that get\_media\_type uses)\<close>

text \<open>
  \<open>re.search(pattern, s)\<close> is used only for its truth value: whether some substring of
  \<open>s\<close> belongs to the language of the pattern.  The patterns of the program use literal
  characters, the dot (any character but the newline), character classes, \<open>?\<close>, \<open>+\<close>, \<open>*\<close> and
  groups; they are written as terms of \<open>rx\<close>.  The search is decided with derivatives.
\<close>

datatype rx = Nul | Eps | Sym "nat \<Rightarrow> bool" | Seq rx rx | Alt rx rx | Star rx

text \<open>The language of a pattern.\<close>

inductive_set star :: "ustring set \<Rightarrow> ustring set" for L :: "ustring set" where
  star_nil: "[] \<in> star L"
| star_app: "a \<in> L \<Longrightarrow> b \<in> star L \<Longrightarrow> a @ b \<in> star L"

fun lang :: "rx \<Rightarrow> ustring set" where
  "lang Nul = {}"
| "lang Eps = {[]}"
| "lang (Sym p) = {[c] | c. p c}"
| "lang (Seq r s) = {a @ b | a b. a \<in> lang r \<and> b \<in> lang s}"
| "lang (Alt r s) = lang r \<union> lang s"
| "lang (Star r) = star (lang r)"

text \<open>The matcher: \<open>match_prefix\<close> is \<open>re.match\<close> (a match at the start), \<open>re_search\<close> tries every start.\<close>

fun nullable :: "rx \<Rightarrow> bool" where
  "nullable Nul = False"
| "nullable Eps = True"
| "nullable (Sym p) = False"
| "nullable (Seq r s) = (nullable r \<and> nullable s)"
| "nullable (Alt r s) = (nullable r \<or> nullable s)"
| "nullable (Star r) = True"

fun seq :: "rx \<Rightarrow> rx \<Rightarrow> rx" where
  "seq Nul s = Nul"
| "seq Eps s = s"
| "seq r Nul = Nul"
| "seq r s = Seq r s"

fun alt :: "rx \<Rightarrow> rx \<Rightarrow> rx" where
  "alt Nul s = s"
| "alt r Nul = r"
| "alt r s = Alt r s"

fun deriv :: "nat \<Rightarrow> rx \<Rightarrow> rx" where
  "deriv c Nul = Nul"
| "deriv c Eps = Nul"
| "deriv c (Sym p) = (if p c then Eps else Nul)"
| "deriv c (Seq r s) =
     (if nullable r then alt (seq (deriv c r) s) (deriv c s) else seq (deriv c r) s)"
| "deriv c (Alt r s) = alt (deriv c r) (deriv c s)"
| "deriv c (Star r) = seq (deriv c r) (Star r)"

fun is_nul :: "rx \<Rightarrow> bool" where
  "is_nul Nul = True"
| "is_nul r = False"

fun match_prefix :: "rx \<Rightarrow> ustring \<Rightarrow> bool" where
  "match_prefix r [] = nullable r"
| "match_prefix r (c # cs) =
     (nullable r \<or> (\<not> is_nul (deriv c r) \<and> match_prefix (deriv c r) cs))"

fun re_search :: "rx \<Rightarrow> ustring \<Rightarrow> bool" where
  "re_search r [] = nullable r"
| "re_search r (c # cs) = (match_prefix r (c # cs) \<or> re_search r cs)"

text \<open>Pattern syntax.\<close>

definition ch :: "nat \<Rightarrow> rx" where
  "ch c = Sym (\<lambda>x. x = c)"

definition lit :: "string \<Rightarrow> rx" where
  "lit s = foldr (\<lambda>c r. Seq (ch (of_char c)) r) s Eps"

definition dot :: rx where
  "dot = Sym (\<lambda>x. x \<noteq> 10)"

definition opt :: "rx \<Rightarrow> rx" where
  "opt r = Alt r Eps"

definition plus :: "rx \<Rightarrow> rx" where
  "plus r = Seq r (Star r)"

definition seqs :: "rx list \<Rightarrow> rx" where
  "seqs rs = foldr Seq rs Eps"

section \<open>Link classification (utils.py, get\_media\_type)\<close>

type_synonym media_info = "ustring \<times> ustring \<times> ustring \<times> ustring list"

definition info :: "string \<Rightarrow> string \<Rightarrow> string \<Rightarrow> string list \<Rightarrow> media_info" where
  "info asset_type ttl mediatype role = (u asset_type, u ttl, u mediatype, map u role)"

definition media_types :: "(ustring \<times> media_info) list" where
  "media_types =
    [(u ''.zarr'', info ''zarr'' ''Zarr'' ''application/vnd+zarr'' [''data'']),
     (u ''.zarr/'', info ''zarr'' ''Zarr'' ''application/vnd+zarr'' [''data'']),
     (u ''.nc'', info ''netcdf'' ''NetCDF'' ''application/vnd+netcdf'' [''data'']),
     (u ''.zip'', info ''zip'' ''Zip'' ''application/zip'' [''data'']),
     (u ''.tif'', info ''geotiff'' ''GeoTIFF'' ''image/tiff; application=geotiff'' [''data'']),
     (u ''.tiff'', info ''geotiff'' ''GeoTIFF'' ''image/tiff; application=geotiff'' [''data'']),
     (u ''.parquet'', info ''parquet'' ''Parquet'' ''application/vnd+parquet'' [''data'']),
     (u ''.parquet/'', info ''parquet'' ''Parquet'' ''application/vnd+parquet'' [''data'']),
     (u ''.geoparquet'', info ''geoparquet'' ''GeoParquet'' ''application/vnd+parquet'' [''data'']),
     (u ''.geoparquet/'', info ''geoparquet'' ''GeoParquet'' ''application/vnd+parquet'' [''data'']),
     (u ''.csv'', info ''csv'' ''CSV'' ''text/csv'' [''data'']),
     (u ''.json'', info ''json'' ''JSON'' ''application/json'' [''metadata'']),
     (u ''.html'', info ''html'' ''HTML'' ''text/html'' [''metadata'']),
     (u ''.png'', info ''png'' ''PNG'' ''image/png'' [''thumbnail'']),
     (u ''.jpg'', info ''jpg'' ''JPEG'' ''image/jpeg'' [''thumbnail''])]"

text \<open>
  The keys of \<open>url_patterns\<close> are given to \<open>re.search\<close>, so a dot in a key stands for any
  character and \<open>x?\<close> for an optional \<open>x\<close>, also in the keys written as plain strings.
\<close>

definition host_char :: rx where
  "host_char = Sym (\<lambda>x. (97 \<le> x \<and> x \<le> 122) \<or> (65 \<le> x \<and> x \<le> 90) \<or> (48 \<le> x \<and> x \<le> 57) \<or> x = 45)"

definition alpha_char :: rx where
  "alpha_char = Sym (\<lambda>x. (97 \<le> x \<and> x \<le> 122) \<or> (65 \<le> x \<and> x \<le> 90))"

text \<open>\<open>ipt\.[a-zA-Z0-9-]+\.[a-zA-Z]+(?:/.*)?\<close>, the common start of the two IPT patterns.\<close>

definition ipt_host :: rx where
  "ipt_host = seqs [lit ''ipt.'', plus host_char, lit ''.'', plus alpha_char,
                    opt (Seq (lit ''/'') (Star dot))]"

definition ipt_resource_rx :: rx where
  "ipt_resource_rx = Seq ipt_host (lit ''/resource?r='')"

definition ipt_archive_rx :: rx where
  "ipt_archive_rx = Seq ipt_host (lit ''/archive.do?'')"

definition url_patterns :: "(rx \<times> media_info) list" where
  "url_patterns =
    [(lit ''opendap'', info ''opendap'' ''OPeNDAP '' ''application/opendap'' [''data'']),
     (lit ''wms'', info ''wms'' ''WMS'' ''OGC:WMS'' [''thumbnail'']),
     (lit ''wfs'', info ''wfs'' ''WFS'' ''OGC:WFS'' [''data'']),
     (seqs [lit ''wm'', opt (lit ''s''), lit ''SERVICE=WMS&REQUEST=GetMap''],
        info ''wms'' ''WMS'' ''OGC:WMS'' [''thumbnail'']),
     (seqs [lit ''wf'', opt (lit ''s''), lit ''SERVICE=WFS&REQUEST=GetFeature''],
        info ''wfs'' ''WFS'' ''OGC:WFS'' [''data'']),
     (lit ''request=GetFeature&outputFormat=text%2Fcsv'', info ''wfscsv'' ''CSV'' ''text/csv'' [''data'']),
     (lit ''xml'', info ''xml'' ''XML'' ''application/xml'' [''metadata'']),
     (lit ''csw?request='', info ''csw'' ''CSW'' ''application/csw'' [''metadata'']),
     (seqs [lit ''doi'', dot, lit ''org''], info ''doi'' ''DOI'' ''application/vnd+doi'' [''data'']),
     (lit ''doi:'', info ''doi'' ''DOI'' ''application/vnd+doi'' [''data'']),
     (seqs [lit ''eurobis'', dot, lit ''org/toolbox/en/download/''],
        info ''eurobistoolbox'' ''Eurobis toolbox'' ''application/html'' [''metadata'']),
     (seqs [lit ''gbif'', dot, lit ''org/dataset/''],
        info ''gbifdataset'' ''GBIF Dataset'' ''application/html'' [''metadata'']),
     (ipt_resource_rx, info ''iptresource'' ''IPT Resource'' ''application/html'' [''metadata'']),
     (ipt_archive_rx, info ''iptdwca'' ''Darwin Core Archive'' ''application/zip'' [''data'']),
     (seqs [lit ''mda'', dot, lit ''vliz'', dot, lit ''be/directlink'', dot, lit ''ph'', opt (lit ''p'')],
        info ''mdazip'' ''Zip'' ''application/zip'' [''data'']),
     (seqs [lit ''mda'', dot, lit ''vliz'', dot, lit ''be/mda/directlink'', dot, lit ''ph'', opt (lit ''p'')],
        info ''mdazip'' ''Zip'' ''application/zip'' [''data''])]"

text \<open>The two loops: the first entry that matches is returned.\<close>

fun match_extension :: "(ustring \<times> media_info) list \<Rightarrow> ustring \<Rightarrow> media_info option" where
  "match_extension [] asset_url = None"
| "match_extension ((ext, i) # rest) asset_url =
     (if endswith asset_url ext then Some i else match_extension rest asset_url)"

fun match_pattern :: "(rx \<times> media_info) list \<Rightarrow> ustring \<Rightarrow> media_info option" where
  "match_pattern [] asset_url = None"
| "match_pattern ((pattern, i) # rest) asset_url =
     (if re_search pattern asset_url then Some i else match_pattern rest asset_url)"

text \<open>\<open>None\<close> stands for the result \<open>(None, None, None, None)\<close> of an unclassified URL.\<close>

definition get_media_type :: "ustring \<Rightarrow> media_info option" where
  "get_media_type asset_url =
     (case match_extension media_types asset_url of
        Some i \<Rightarrow> Some i
      | None \<Rightarrow> match_pattern url_patterns asset_url)"

section \<open>Link tests and conversion (utils.py, test\_link, convert\_ipt\_to\_dwca)\<close>

text \<open>
  The network is outside the program: \<open>requests.get\<close> either returns a response with a
  status code or raises a \<open>RequestException\<close> (the base class of everything the library
  raises).  \<open>raise_for_status\<close> raises one for the codes 400 to 599.  The result of
  \<open>test_link\<close> is \<open>True\<close>, \<open>False\<close> or \<open>None\<close>.
\<close>

datatype http_result = Response nat | RequestException

type_synonym network = "ustring \<Rightarrow> http_result"

definition test_link :: "network \<Rightarrow> ustring \<Rightarrow> ustring \<Rightarrow> bool option" where
  "test_link net ident download_url =
     (case net download_url of
        RequestException \<Rightarrow> None
      | Response code \<Rightarrow>
          if 400 \<le> code \<and> code < 600 then None
          else if code = 200 then Some True else Some False)"

definition https_link :: "ustring \<Rightarrow> ustring" where
  "https_link ipt_link =
     (if startswith ipt_link (u ''http://'')
      then replace ipt_link (u ''http://'') (u ''https://'') else ipt_link)"

definition tested_dwca :: "network \<Rightarrow> ustring \<Rightarrow> ustring \<Rightarrow> ustring option" where
  "tested_dwca net ident dwca_url =
     (if test_link net ident dwca_url = Some True then Some dwca_url else None)"

definition convert_ipt_to_dwca :: "network \<Rightarrow> ustring \<Rightarrow> ustring \<Rightarrow> pyerror + ustring option" where
  "convert_ipt_to_dwca net ident ipt_link0 =
     (let ipt_link = https_link ipt_link0
      in if contains ipt_link (u ''/resource?r='')
         then Inr (tested_dwca net ident (replace ipt_link (u ''/resource?r='') (u ''/archive.do?r='')))
         else if contains ipt_link (u ''/archive.do'')
         then Inr (tested_dwca net ident ipt_link)
         else Inl ValueError)"

section \<open>Bounding boxes (utils.py, finalize\_boundaries)\<close>

text \<open>
  \<open>pd.isna\<close> on a scalar, and the test of the \<open>any(...)\<close> over the coordinates: \<open>None\<close>, a
  float NaN, or a string whose \<open>lower()\<close> is \<open>nan\<close>.
\<close>

definition pd_isna :: "pyval \<Rightarrow> bool" where
  "pd_isna v = (v = VNone \<or> v = VFloat NaN)"

definition nan_like :: "runtime \<Rightarrow> pyval \<Rightarrow> bool" where
  "nan_like rt coord =
     (pd_isna coord \<or> coord = VFloat NaN
      \<or> (case coord of VStr s \<Rightarrow> py_lower rt s = u ''nan'' | _ \<Rightarrow> False))"

text \<open>
  The inner function.  Only \<open>ValueError\<close> and \<open>TypeError\<close> are caught; the fallback is the
  lower bound when the name of the coordinate contains \<open>min\<close>, else the upper bound.  The
  bounds are integers in the source; an integer and the float equal to it are identified.
\<close>

definition validate_and_convert ::
    "runtime \<Rightarrow> pyval \<Rightarrow> real \<Rightarrow> real \<Rightarrow> ustring \<Rightarrow> pyerror + pyfloat" where
  "validate_and_convert rt coord min_val max_val coord_name =
     (case py_float rt coord of
        Inr c \<Rightarrow>
          if flt c (Fin min_val) \<or> flt (Fin max_val) c
          then Inr (if flt c (Fin min_val) then Fin min_val else Fin max_val)
          else Inr c
      | Inl e \<Rightarrow>
          if e = ValueError \<or> e = TypeError
          then Inr (if contains coord_name (u ''min'') then Fin min_val else Fin max_val)
          else Inl e)"

definition world :: "pyfloat list" where
  "world = [Fin (- 180), Fin (- 90), Fin 180, Fin 90]"

text \<open>The branch for a source that is present and not empty; it is the same for both keys.\<close>

definition box_of :: "runtime \<Rightarrow> pyval list \<Rightarrow> pyerror + pyfloat list" where
  "box_of rt b =
     (if list_ex (nan_like rt) b then Inr world
      else
        then_do (item_at b 0) (\<lambda>c0.
        then_do (validate_and_convert rt c0 (- 180) 180 (u ''longitude minimum'')) (\<lambda>lon_min.
        then_do (item_at b 1) (\<lambda>c1.
        then_do (validate_and_convert rt c1 (- 90) 90 (u ''latitude minimum'')) (\<lambda>lat_min.
        then_do (item_at b 2) (\<lambda>c2.
        then_do (validate_and_convert rt c2 (- 180) 180 (u ''longitude maximum'')) (\<lambda>lon_max.
        then_do (item_at b 3) (\<lambda>c3.
        then_do (validate_and_convert rt c3 (- 90) 90 (u ''latitude maximum'')) (\<lambda>lat_max.
        Inr [lon_min, lat_min, lon_max, lat_max])))))))))"

text \<open>The source that is used: the bbox when it is there and not empty, else the extent.\<close>

definition chosen_source :: "metadata \<Rightarrow> pyval list option" where
  "chosen_source md =
     (case bbox md of
        Some (c # cs) \<Rightarrow> Some (c # cs)
      | _ \<Rightarrow> (case geographic_extent md of
                Some (c # cs) \<Rightarrow> Some (c # cs)
              | _ \<Rightarrow> None))"

definition finalize_boundaries :: "runtime \<Rightarrow> metadata \<Rightarrow> pyerror + pyfloat list" where
  "finalize_boundaries rt md =
     (if bbox md \<noteq> None \<and> bbox md \<noteq> Some []
      then box_of rt (the (bbox md))
      else if geographic_extent md \<noteq> None \<and> geographic_extent md \<noteq> Some []
      then box_of rt (the (geographic_extent md))
      else Inr world)"

section \<open>Date strings (utils.py, format\_datetime\_to\_iso8601)\<close>

text \<open>The padding of short date strings, by their length.\<close>

definition expand_date :: "ustring \<Rightarrow> ustring" where
  "expand_date datetime_str =
     (let s1 = (if length datetime_str = 4 then datetime_str @ u ''-01-01T00:00:00Z''
                else if length datetime_str = 7 then datetime_str @ u ''-01T00:00:00Z''
                else datetime_str)
      in if length s1 = 10 then s1 @ u ''T00:00:00Z''
         else if length s1 = 16 then s1 @ u '':00Z''
         else if length s1 = 19 then s1 @ u ''Z''
         else s1)"

text \<open>
  A naive datetime is given the zone UTC, an aware one is converted to UTC (which can
  overflow at the ends of the calendar).
\<close>

definition as_utc :: "pydatetime \<Rightarrow> pyerror + pydatetime" where
  "as_utc dt = (case utcoffset dt of
                  None \<Rightarrow> Inr (dt\<lparr>utcoffset := Some 0\<rparr>)
                | Some off \<Rightarrow> to_utc dt off)"

text \<open>Only the parser's \<open>ValueError\<close> is caught; the result \<open>None\<close> is \<open>Inr None\<close>.\<close>

definition format_datetime_to_iso8601 ::
    "(ustring \<Rightarrow> parse_result) \<Rightarrow> ustring \<Rightarrow> pyerror + ustring option" where
  "format_datetime_to_iso8601 parse datetime_str =
     (case parse (expand_date datetime_str) of
        ParseValueError \<Rightarrow> Inr None
      | ParseOverflowError \<Rightarrow> Inl OverflowError
      | Parsed dt \<Rightarrow>
          then_do (as_utc dt)
            (\<lambda>d. Inr (Some (replace (isoformat_utc d) (u ''+00:00'') (u ''Z'')))))"

text \<open>
  A parser for the form \<open>YYYY-MM-DDTHH:MM:SS\<close> followed by \<open>Z\<close> or \<open>+HH:MM\<close> or \<open>-HH:MM\<close>; on
  such strings it reads what \<open>dateutil\<close> reads.  It serves as the parser in the examples.
\<close>

text \<open>The number that a string of ASCII digits writes.\<close>

definition digits_value :: "ustring \<Rightarrow> nat" where
  "digits_value ds = foldl (\<lambda>a d. 10 * a + (d - 48)) 0 ds"

text \<open>The \<open>n\<close> digits at position \<open>i\<close>.\<close>

definition digits_at :: "ustring \<Rightarrow> nat \<Rightarrow> nat \<Rightarrow> int option" where
  "digits_at s i n =
     (let ds = take n (drop i s)
      in if length ds = n \<and> list_all ascii_digit ds then Some (int (digits_value ds)) else None)"

definition zone_of :: "ustring \<Rightarrow> int option" where
  "zone_of z =
     (if z = u ''Z'' then Some 0
      else (case (digits_at z 1 2, digits_at z 4 2) of
              (Some h, Some m) \<Rightarrow>
                if length z = 6 \<and> take 1 (drop 3 z) = u '':'' \<and> h < 24 \<and> m < 60
                then (if take 1 z = u ''+'' then Some (h * 3600 + m * 60)
                      else if take 1 z = u ''-'' then Some (- (h * 3600 + m * 60))
                      else None)
                else None
            | _ \<Rightarrow> None))"

definition iso8601_parse :: "ustring \<Rightarrow> parse_result" where
  "iso8601_parse s =
     (case (digits_at s 0 4, digits_at s 5 2, digits_at s 8 2, digits_at s 11 2,
            digits_at s 14 2, digits_at s 17 2, zone_of (drop 19 s)) of
        (Some y, Some mo, Some d, Some h, Some mi, Some se, Some off) \<Rightarrow>
          if take 1 (drop 4 s) = u ''-'' \<and> take 1 (drop 7 s) = u ''-''
             \<and> take 1 (drop 10 s) = u ''T'' \<and> take 1 (drop 13 s) = u '':''
             \<and> take 1 (drop 16 s) = u '':''
             \<and> 1 \<le> y \<and> 1 \<le> mo \<and> mo \<le> 12 \<and> 1 \<le> d \<and> d \<le> days_in_month y mo
             \<and> h < 24 \<and> mi < 60 \<and> se < 60
          then Parsed \<lparr>year = y, month = mo, day = d, hour = h, minute = mi, second = se,
                       microsecond = 0, utcoffset = Some off\<rparr>
          else ParseValueError
      | _ \<Rightarrow> ParseValueError)"

section \<open>The environment of catalog construction\<close>

text \<open>
  What \<open>format_datetime\<close> takes from outside the program: the parser, the clock
  (\<open>datetime.today()\<close>) and the offset in seconds that the system's local zone gives a naive
  datetime (\<open>astimezone\<close> presumes a naive datetime to be local time).
\<close>

record env =
  env_parse :: "ustring \<Rightarrow> parse_result"
  env_today :: pydatetime
  env_local_offset :: "pydatetime \<Rightarrow> int"

text \<open>utils.py, \<open>format_datetime\<close>: a parser \<open>ValueError\<close> gives today's date.\<close>

definition format_datetime :: "env \<Rightarrow> ustring \<Rightarrow> pyerror + pydatetime" where
  "format_datetime e datetime_str =
     (case env_parse e (expand_date datetime_str) of
        Parsed dt \<Rightarrow>
          to_utc dt (case utcoffset dt of None \<Rightarrow> env_local_offset e dt | Some off \<Rightarrow> off)
      | ParseValueError \<Rightarrow> Inr ((env_today e)\<lparr>utcoffset := Some 0\<rparr>)
      | ParseOverflowError \<Rightarrow> Inl OverflowError)"

text \<open>
  utils.py, \<open>format_start_end_datetimes_stac\<close>: a missing key is a \<open>KeyError\<close>; the datetime
  objects take the place of the two strings.
\<close>

definition format_start_end_datetimes_stac :: "env \<Rightarrow> metadata \<Rightarrow> pyerror + metadata" where
  "format_start_end_datetimes_stac e md =
     (case start_datetime md of
        None \<Rightarrow> Inl KeyError
      | Some s \<Rightarrow>
          then_do (format_datetime e s) (\<lambda>sd.
            (case end_datetime md of
               None \<Rightarrow> Inl KeyError
             | Some t \<Rightarrow>
                 then_do (format_datetime e t) (\<lambda>ed.
                   Inr (md\<lparr>start_stamp := Some sd, end_stamp := Some ed\<rparr>)))))"

section \<open>Providers (utils.py, lookup\_thematic\_lot and update\_providers)\<close>

definition emodnet_provider_dict :: "(ustring \<times> ustring) list" where
  "emodnet_provider_dict =
    [(u ''seabed-habitats'', u ''EMODnet Seabed Habitats''),
     (u ''seabedhabitats'', u ''EMODnet Seabed Habitats''),
     (u ''emodnet-seabedhabitats'', u ''EMODnet Seabed Habitats''),
     (u ''EMODnet Seabed Habitats'', u ''EMODnet Seabed Habitats''),
     (u ''bathymetry'', u ''EMODnet Bathymetry''),
     (u ''EMODnet Bathymetry'', u ''EMODnet Bathymetry''),
     (u ''emodnet-bathymetry'', u ''EMODnet Bathymetry''),
     (u ''geology'', u ''EMODnet Geology''),
     (u ''EMODnet Geology'', u ''EMODnet Geology''),
     (u ''emodnet-geology'', u ''EMODnet Geology''),
     (u ''chemistry'', u ''EMODnet Chemistry''),
     (u ''emodnet-chemistry'', u ''EMODnet Chemistry''),
     (u ''EMODnet Chemistry'', u ''EMODnet Chemistry''),
     (u ''eurobis'', u ''EMODnet Biology''),
     (u ''obis'', u ''EMODnet Biology''),
     (u ''gbif'', u ''EMODnet Biology''),
     (u ''ipt'', u ''EMODnet Biology''),
     (u ''mda.vliz'', u ''EMODnet Biology''),
     (u ''emodnet-biology'', u ''EMODnet Biology''),
     (u ''EMODnet Biology'', u ''EMODnet Biology''),
     (u ''emodnet-physics'', u ''EMODnet Physics''),
     (u ''EMODnet Physics'', u ''EMODnet Physics''),
     (u ''physics'', u ''EMODnet Physics''),
     (u ''humanactivities'', u ''EMODnet Human Activities''),
     (u ''emodnet-humanactivities'', u ''EMODnet Human Activities''),
     (u ''EMODnet Human Activities'', u ''EMODnet Human Activities'')]"

text \<open>The value of the first key of the table that satisfies a test.\<close>

definition first_value :: "(ustring \<times> ustring) list \<Rightarrow> (ustring \<Rightarrow> bool) \<Rightarrow> ustring option" where
  "first_value tbl test = map_option snd (find (\<lambda>(key, v). test key) tbl)"

fun first_in_assets :: "(ustring \<times> ustring) list \<Rightarrow> ustring list \<Rightarrow> ustring option" where
  "first_in_assets tbl [] = None"
| "first_in_assets tbl (asset # rest) =
     (case first_value tbl (\<lambda>key. contains asset key) of
        Some v \<Rightarrow> Some v
      | None \<Rightarrow> first_in_assets tbl rest)"

definition lookup_thematic_lot :: "metadata \<Rightarrow> ustring" where
  "lookup_thematic_lot md =
     (case first_in_assets emodnet_provider_dict (assets md) of
        Some v \<Rightarrow> v
      | None \<Rightarrow>
         (case (if truthy (abstract md)
                then first_value emodnet_provider_dict (\<lambda>key. contains (the (abstract md)) key)
                else None) of
            Some v \<Rightarrow> v
          | None \<Rightarrow>
             (case (case subjects md of
                      None \<Rightarrow> None
                    | Some ss \<Rightarrow> first_value emodnet_provider_dict (\<lambda>key. key \<in> set ss)) of
                Some v \<Rightarrow> v
              | None \<Rightarrow> u ''EMODnet'')))"

text \<open>
  A provider is the pair of its name and its roles.  \<open>metadata['provider'].append\<close> needs the
  key: without it the call raises \<open>KeyError\<close>.
\<close>

definition update_providers :: "metadata \<Rightarrow> pyerror + metadata" where
  "update_providers md =
     (let d1 = (if truthy (creator md) then Some (the (creator md), u ''creator'') else None);
          d2 = (if truthy (publisher md) then Some (the (publisher md), u ''publisher'') else d1);
          d3 = (if truthy (distributor md) then Some (the (distributor md), u ''distributor'') else d2);
          provider_dict = (case d3 of
                             None \<Rightarrow> (lookup_thematic_lot md, u ''provider'')
                           | Some p \<Rightarrow> p)
      in (case provider md of
            None \<Rightarrow> Inl KeyError
          | Some ps \<Rightarrow> Inr (md\<lparr>provider := Some (ps @ [provider_dict])\<rparr>)))"

section \<open>The catalog tree (stac.py, with the part of pystac it uses)\<close>

record stac_asset =
  asset_href :: ustring
  asset_title :: ustring
  asset_media_type :: ustring
  asset_roles :: "ustring list"

text \<open>
  An item.  Its bbox always has four coordinates.  \<open>item_epsg = None\<close> stands for the
  default 4326.
\<close>

record stac_item =
  item_id :: ustring
  item_geometry :: "(pyfloat \<times> pyfloat) list"
  item_bbox :: "pyfloat \<times> pyfloat \<times> pyfloat \<times> pyfloat"
  item_start_datetime :: pydatetime
  item_end_datetime :: pydatetime
  item_datetime :: "pydatetime option"
  item_keywords :: "ustring list"
  item_epsg :: "ustring option"
  item_license :: ustring
  item_title :: ustring
  item_provider :: ustring
  item_references :: "ustring option"
  item_assets :: "(ustring \<times> stac_asset) list"
  item_collection :: ustring

record stac_extent =
  spatial :: "pyfloat list list"
  temporal :: "(pydatetime option \<times> pydatetime option) list"

record stac_collection =
  coll_id :: ustring
  coll_title :: ustring
  coll_description :: ustring
  coll_providers :: "(ustring \<times> ustring) list"
  coll_license :: ustring
  coll_extent :: stac_extent
  coll_items :: "stac_item list"

record stac_family =
  fam_id :: ustring
  fam_title :: ustring
  fam_description :: ustring
  fam_collections :: "stac_collection list"

text \<open>
  \<open>pystac.Extent.from_items\<close>.  Python's \<open>min\<close> and \<open>max\<close> keep the first extreme element
  they meet.  The four lists of bounds start with plus or minus infinity; datetimes are
  compared as instants, a naive one taken as UTC.
\<close>

definition min_from :: "pyfloat \<Rightarrow> pyfloat list \<Rightarrow> pyfloat" where
  "min_from seed xs = foldl (\<lambda>cur x. if flt x cur then x else cur) seed xs"

definition max_from :: "pyfloat \<Rightarrow> pyfloat list \<Rightarrow> pyfloat" where
  "max_from seed xs = foldl (\<lambda>cur x. if flt cur x then x else cur) seed xs"

definition with_utc :: "pydatetime \<Rightarrow> pydatetime" where
  "with_utc dt = (case utcoffset dt of None \<Rightarrow> dt\<lparr>utcoffset := Some 0\<rparr> | Some off \<Rightarrow> dt)"

definition earliest :: "pydatetime list \<Rightarrow> pydatetime option" where
  "earliest ds =
     (case map with_utc ds of
        [] \<Rightarrow> None
      | d # rest \<Rightarrow> Some (foldl (\<lambda>cur x. if instant x < instant cur then x else cur) d rest))"

definition latest :: "pydatetime list \<Rightarrow> pydatetime option" where
  "latest ds =
     (case map with_utc ds of
        [] \<Rightarrow> None
      | d # rest \<Rightarrow> Some (foldl (\<lambda>cur x. if instant cur < instant x then x else cur) d rest))"

definition item_datetimes :: "stac_item list \<Rightarrow> pydatetime list" where
  "item_datetimes items = concat (map (\<lambda>i. case item_datetime i of None \<Rightarrow> [] | Some d \<Rightarrow> [d]) items)"

definition extent_from_items :: "stac_item list \<Rightarrow> stac_extent" where
  "extent_from_items items =
     \<lparr>spatial = [[min_from PInf (map (\<lambda>i. fst (item_bbox i)) items),
                   min_from PInf (map (\<lambda>i. fst (snd (item_bbox i))) items),
                   max_from NInf (map (\<lambda>i. fst (snd (snd (item_bbox i)))) items),
                   max_from NInf (map (\<lambda>i. snd (snd (snd (item_bbox i)))) items)]],
      temporal = [(earliest (item_datetimes items @ map item_start_datetime items),
                   latest (item_datetimes items @ map item_end_datetime items))]\<rparr>"

text \<open>stac.py, \<open>add_or_use_collection\<close>.  The names of the providers, each once, in order.\<close>

fun unique_providers :: "(ustring \<times> ustring) list \<Rightarrow> (ustring \<times> ustring) list \<Rightarrow> (ustring \<times> ustring) list" where
  "unique_providers acc [] = acc"
| "unique_providers acc ((name, rs) # rest) =
     unique_providers (if name \<in> set (map fst acc) then acc else acc @ [(name, rs)]) rest"

text \<open>
  \<open>collection_convention\<close> is assigned only when a provider name contains \<open>EMODnet\<close>; it is
  \<open>None\<close> while unassigned, and reading it then is an \<open>UnboundLocalError\<close>.  The result is the
  collection, the family with its children, and the record.
\<close>

definition add_or_use_collection ::
    "runtime \<Rightarrow> stac_family \<Rightarrow> ustring \<Rightarrow> metadata
       \<Rightarrow> pyerror + (stac_collection \<times> stac_family \<times> metadata)" where
  "add_or_use_collection rt fam current_collection md0 =
     then_do (update_providers md0) (\<lambda>md.
       let providers = unique_providers [] (the (provider md));
           slug = custom_slugify rt current_collection;
           emodnet = list_ex (\<lambda>key. contains key (u ''EMODnet'')) (map fst providers);
           current_collection_id = (if emodnet then u ''emodnet-'' @ slug else slug);
           collection_convention = (if emodnet then Some (u ''EMODnet'') else None);
           collection_ids = map coll_id (fam_collections fam)
       in if current_collection_id \<notin> set collection_ids
          then (case collection_convention of
                  None \<Rightarrow> Inl UnboundLocalError
                | Some convention \<Rightarrow>
                    (let new_collection =
                           \<lparr>coll_id = current_collection_id,
                            coll_title = current_collection @ u '' ('' @ convention @ u '' Convention)'',
                            coll_description = u ''Collection of '' @ current_collection @ u '' data'',
                            coll_providers = providers,
                            coll_license = (case license md of None \<Rightarrow> u ''CC-BY-4.0'' | Some l \<Rightarrow> l),
                            coll_extent = \<lparr>spatial = [world], temporal = [(None, None)]\<rparr>,
                            coll_items = []\<rparr>
                     in Inr (new_collection,
                             fam\<lparr>fam_collections := fam_collections fam @ [new_collection]\<rparr>,
                             md\<lparr>variable_family := Some (fam_id fam)\<rparr>)))
          else Inr (the (find (\<lambda>c. coll_id c = current_collection_id) (fam_collections fam)),
                    fam, md))"

text \<open>stac.py, \<open>add_item\<close>.  The assets of an item, by asset type; a later link of a type
  takes the place of an earlier one.\<close>

fun lookup_assets :: "(ustring \<times> stac_asset) list \<Rightarrow> ustring list \<Rightarrow> (ustring \<times> stac_asset) list" where
  "lookup_assets acc [] = acc"
| "lookup_assets acc (link # links) =
     (case get_media_type link of
        None \<Rightarrow> lookup_assets acc links
      | Some (asset_type, ttl, mediatype, role) \<Rightarrow>
          lookup_assets
            (dict_update acc asset_type
               \<lparr>asset_href = link, asset_title = ttl, asset_media_type = mediatype,
                asset_roles = role\<rparr>) links)"

text \<open>
  The result of \<open>add_item\<close>: what it returns (the record, or \<open>None\<close>), and the record and the
  collection as the call leaves them, since both are changed in place.
\<close>

record add_item_result =
  returned :: "metadata option"
  record_after :: metadata
  collection_after :: stac_collection

text \<open>The item that \<open>add_item\<close> builds, and \<open>collection.add_item\<close> followed by the new extent.\<close>

definition new_stac_item ::
    "metadata \<Rightarrow> stac_collection \<Rightarrow> ustring \<Rightarrow> pyfloat \<times> pyfloat \<times> pyfloat \<times> pyfloat
       \<Rightarrow> ustring list \<Rightarrow> ustring \<Rightarrow> stac_item" where
  "new_stac_item md collection new_item_id box keywords provider_name =
     (case box of (lon_min, lat_min, lon_max, lat_max) \<Rightarrow>
        \<lparr>item_id = new_item_id,
         item_geometry = [(lon_min, lat_min), (lon_max, lat_min), (lon_max, lat_max),
                          (lon_min, lat_max), (lon_min, lat_min)],
         item_bbox = (lon_min, lat_min, lon_max, lat_max),
         item_start_datetime = the (start_stamp md),
         item_end_datetime = the (end_stamp md),
         item_datetime = None,
         item_keywords = keywords,
         item_epsg = crs md,
         item_license = (case license md of None \<Rightarrow> u ''CC-BY-4.0'' | Some l \<Rightarrow> l),
         item_title = the (title md),
         item_provider = provider_name,
         item_references = (if truthy (references md) then references md else None),
         item_assets = lookup_assets [] (assets md),
         item_collection = coll_id collection\<rparr>)"

definition attach_item :: "stac_collection \<Rightarrow> stac_item \<Rightarrow> stac_collection" where
  "attach_item collection new_item =
     (let collection1 = collection\<lparr>coll_items := coll_items collection @ [new_item]\<rparr>
      in collection1\<lparr>coll_extent := extent_from_items (coll_items collection1)\<rparr>)"

text \<open>The end of \<open>add_item\<close>, once the box and the dates are there.\<close>

definition insert_new_item ::
    "metadata \<Rightarrow> stac_collection \<Rightarrow> ustring \<Rightarrow> pyfloat \<times> pyfloat \<times> pyfloat \<times> pyfloat
       \<Rightarrow> pyerror + add_item_result" where
  "insert_new_item md collection new_item_id box =
     (case (subjects md, provider md) of
        (None, _) \<Rightarrow> Inl KeyError
      | (Some keywords, None) \<Rightarrow> Inl KeyError
      | (Some keywords, Some []) \<Rightarrow> Inl IndexError
      | (Some keywords, Some ((provider_name, rs) # ps)) \<Rightarrow>
         (let new_item = new_stac_item md collection new_item_id box keywords provider_name
          in if item_assets new_item = []
             then Inr \<lparr>returned = None, record_after = md, collection_after = collection\<rparr>
             else
              (let md1 = md\<lparr>stac_id := Some new_item_id,
                            stac_collection := Some (coll_id collection)\<rparr>
               in Inr \<lparr>returned = Some md1, record_after = md1,
                       collection_after = attach_item collection new_item\<rparr>)))"

definition add_item ::
    "runtime \<Rightarrow> env \<Rightarrow> metadata \<Rightarrow> stac_collection \<Rightarrow> pyerror + add_item_result" where
  "add_item rt e md0 collection =
     (let item_ids = map item_id (coll_items collection)
      in if \<not> truthy (title md0)
         then Inr \<lparr>returned = None, record_after = md0, collection_after = collection\<rparr>
         else
          (let new_item_id = custom_slugify rt (the (title md0))
           in if new_item_id \<in> set item_ids
              then Inr \<lparr>returned = None, record_after = md0, collection_after = collection\<rparr>
              else
               then_do (finalize_boundaries rt md0) (\<lambda>box.
                (case box of
                   [lon_min, lat_min, lon_max, lat_max] \<Rightarrow>
                     then_do (format_start_end_datetimes_stac e (update_datetimes md0)) (\<lambda>md.
                       insert_new_item md collection new_item_id
                         (lon_min, lat_min, lon_max, lat_max))
                 | _ \<Rightarrow> Inl ValueError))))"

text \<open>
  The union of the items' boxes as the specification means it, for boxes of finite
  numbers: the least west and south and the greatest east and north.
\<close>

definition real_of :: "pyfloat \<Rightarrow> real" where
  "real_of f = (case f of Fin r \<Rightarrow> r | _ \<Rightarrow> 0)"

definition finite_box :: "pyfloat \<times> pyfloat \<times> pyfloat \<times> pyfloat \<Rightarrow> bool" where
  "finite_box b = (case b of (Fin x0, Fin y0, Fin x1, Fin y1) \<Rightarrow> True | _ \<Rightarrow> False)"

definition union_of_boxes :: "stac_item list \<Rightarrow> pyfloat list" where
  "union_of_boxes items =
     [Fin (Min (set (map (\<lambda>i. real_of (fst (item_bbox i))) items))),
      Fin (Min (set (map (\<lambda>i. real_of (fst (snd (item_bbox i)))) items))),
      Fin (Max (set (map (\<lambda>i. real_of (fst (snd (snd (item_bbox i))))) items))),
      Fin (Max (set (map (\<lambda>i. real_of (snd (snd (snd (item_bbox i))))) items)))]"

section \<open>An interpreter for the examples\<close>

text \<open>
  The examples need an interpreter that computes.  \<open>cpython_sample\<close> gives CPython's
  answers for strings whose code points are ASCII, U+0130 (LATIN CAPITAL LETTER I WITH DOT
  ABOVE, a letter whose lowercase is \<open>i\<close> followed by U+0307) or U+0307 (COMBINING DOT ABOVE,
  a mark: not alphanumeric, not whitespace, not a digit, without case).  It is used at such
  strings only.
\<close>

definition sample_isalnum :: "nat \<Rightarrow> bool" where
  "sample_isalnum c = (ascii_alnum c \<or> c = 304)"

definition sample_lower :: "ustring \<Rightarrow> ustring" where
  "sample_lower s = concat (map (\<lambda>c. if c = 304 then [105, 775] else [ascii_lower c]) s)"

text \<open>
  The double nearest to the fraction \<open>p / q\<close>, ties to the even mantissa: 53 bits of
  mantissa, or fewer below \<open>2^-1022\<close>.  \<open>None\<close> when the rounded value reaches \<open>2^1024\<close>.
\<close>

fun bit_length :: "nat \<Rightarrow> nat" where
  "bit_length n = (if n = 0 then 0 else Suc (bit_length (n div 2)))"

declare bit_length.simps [simp del]

definition floor_log2 :: "nat \<Rightarrow> nat \<Rightarrow> int" where
  "floor_log2 p q =
     (let k0 = int (bit_length p) - int (bit_length q)
      in if q * 2 ^ nat k0 \<le> p * 2 ^ nat (- k0) then k0 else k0 - 1)"

definition nearest_double :: "nat \<Rightarrow> nat \<Rightarrow> real option" where
  "nearest_double p q =
     (if p = 0 then Some 0
      else
       (let e2 = max (floor_log2 p q - 52) (- 1074);
            num = p * 2 ^ nat (- e2);
            den = q * 2 ^ nat e2;
            f = num div den;
            r = num mod den;
            n = (if 2 * r < den then f else if den < 2 * r then f + 1
                 else if even f then f else f + 1)
        in if 0 \<le> e2 \<and> 2 ^ 1024 \<le> n * 2 ^ nat e2 then None
           else Some (real n * 2 ^ nat e2 / 2 ^ nat (- e2))))"

text \<open>
  \<open>float(s)\<close> for a string without whitespace or digits beyond ASCII.  The whitespace of C
  (9 to 13 and 32) around the text is dropped; an underscore may stand between two digits;
  then comes an optional sign and either \<open>inf\<close>, \<open>infinity\<close> or \<open>nan\<close> in any case, or a decimal
  numeral: digits with an optional point, at least one digit, and an optional exponent.
  The value is the nearest double, infinite when too large.  Anything else is a
  \<open>ValueError\<close>.
\<close>

definition c_space :: "nat \<Rightarrow> bool" where
  "c_space c = ((9 \<le> c \<and> c \<le> 13) \<or> c = 32)"

definition c_strip :: "ustring \<Rightarrow> ustring" where
  "c_strip s = rev (dropWhile c_space (rev (dropWhile c_space s)))"

fun drop_underscores :: "nat \<Rightarrow> ustring \<Rightarrow> ustring option" where
  "drop_underscores prev [] = (if prev = 95 then None else Some [])"
| "drop_underscores prev (c # cs) =
     (if c = 95 then (if ascii_digit prev then drop_underscores c cs else None)
      else if prev = 95 \<and> \<not> ascii_digit c then None
      else map_option ((#) c) (drop_underscores c cs))"

definition split_sign :: "ustring \<Rightarrow> bool \<times> ustring" where
  "split_sign s = (case s of [] \<Rightarrow> (False, [])
                   | c # cs \<Rightarrow> if c = 45 then (True, cs) else if c = 43 then (False, cs) else (False, s))"

text \<open>The exponent part: empty, or \<open>e\<close> or \<open>E\<close>, an optional sign and at least one digit.\<close>

definition exponent_of :: "ustring \<Rightarrow> int option" where
  "exponent_of s =
     (case s of [] \<Rightarrow> Some 0
      | c # cs \<Rightarrow>
          if c = 101 \<or> c = 69 then
            (if snd (split_sign cs) \<noteq> [] \<and> list_all ascii_digit (snd (split_sign cs))
             then Some (if fst (split_sign cs) then - int (digits_value (snd (split_sign cs)))
                        else int (digits_value (snd (split_sign cs))))
             else None)
          else None)"

text \<open>
  A decimal numeral as mantissa and power of ten, from its integer digits \<open>ip\<close>, its
  fraction digits \<open>fp\<close> and what follows them.
\<close>

definition mantissa_exponent :: "ustring \<Rightarrow> ustring \<Rightarrow> ustring \<Rightarrow> (nat \<times> int) option" where
  "mantissa_exponent ip fp r =
     (if ip = [] \<and> fp = [] then None
      else (case exponent_of r of
              None \<Rightarrow> None
            | Some e \<Rightarrow> Some (digits_value (ip @ fp), e - int (length fp))))"

definition fraction_of :: "ustring \<Rightarrow> ustring \<Rightarrow> (nat \<times> int) option" where
  "fraction_of ip r =
     (case r of [] \<Rightarrow> mantissa_exponent ip [] []
      | c # cs \<Rightarrow> if c = 46
                  then mantissa_exponent ip (takeWhile ascii_digit cs) (dropWhile ascii_digit cs)
                  else mantissa_exponent ip [] r)"

definition decimal_of :: "ustring \<Rightarrow> (nat \<times> int) option" where
  "decimal_of s = fraction_of (takeWhile ascii_digit s) (dropWhile ascii_digit s)"

definition signed_value :: "bool \<Rightarrow> ustring \<Rightarrow> pyerror + pyfloat" where
  "signed_value neg body =
     (if map ascii_lower body = u ''inf'' \<or> map ascii_lower body = u ''infinity''
        then Inr (if neg then NInf else PInf)
      else if map ascii_lower body = u ''nan'' then Inr NaN
      else (case decimal_of body of
              None \<Rightarrow> Inl ValueError
            | Some me \<Rightarrow>
                (case nearest_double (fst me * 10 ^ nat (snd me)) (10 ^ nat (- snd me)) of
                   None \<Rightarrow> Inr (if neg then NInf else PInf)
                 | Some x \<Rightarrow> Inr (Fin (if neg then - x else x)))))"

definition sample_float_of_str :: "ustring \<Rightarrow> pyerror + pyfloat" where
  "sample_float_of_str s =
     (case drop_underscores 0 (c_strip s) of
        None \<Rightarrow> Inl ValueError
      | Some t \<Rightarrow> signed_value (fst (split_sign t)) (snd (split_sign t)))"

text \<open>
  \<open>float(v)\<close>: \<open>None\<close> is a \<open>TypeError\<close>, a float is itself, an integer is the nearest double
  or an \<open>OverflowError\<close>.
\<close>

definition sample_float :: "pyval \<Rightarrow> pyerror + pyfloat" where
  "sample_float v =
     (case v of
        VNone \<Rightarrow> Inl TypeError
      | VInt i \<Rightarrow> (case nearest_double (nat \<bar>i\<bar>) 1 of
                     None \<Rightarrow> Inl OverflowError
                   | Some x \<Rightarrow> Inr (Fin (if i < 0 then - x else x)))
      | VFloat f \<Rightarrow> Inr f
      | VStr s \<Rightarrow> sample_float_of_str s)"

definition cpython_sample :: runtime where
  "cpython_sample = \<lparr>py_isalnum = sample_isalnum, py_isspace = ascii_space,
                      py_isdecimal = ascii_digit, py_lower = sample_lower,
                      py_float = sample_float\<rparr>"

section \<open>Example data\<close>

text \<open>
  An environment whose parser is the ISO parser, a collection without items, and records
  with the boxes \<open>[0, 0, 1, 1]\<close> and \<open>[2, 2, 3, 3]\<close>; the third record has another title with
  the same slug as the first.
\<close>

definition demo_env :: env where
  "demo_env = \<lparr>env_parse = iso8601_parse,
                env_today = \<lparr>year = 2024, month = 1, day = 1, hour = 0, minute = 0, second = 0,
                              microsecond = 0, utcoffset = None\<rparr>,
                env_local_offset = (\<lambda>dt. 0)\<rparr>"

definition physics :: stac_collection where
  "physics = \<lparr>coll_id = u ''emodnet-physics'', coll_title = u ''Physics (EMODnet Convention)'',
               coll_description = u ''Collection of Physics data'',
               coll_providers = [(u ''EMODnet Physics'', u ''provider'')],
               coll_license = u ''CC-BY-4.0'',
               coll_extent = \<lparr>spatial = [world], temporal = [(None, None)]\<rparr>,
               coll_items = []\<rparr>"

definition record_sst :: metadata where
  "record_sst = (blank_record (u ''r1''))\<lparr>title := Some (u ''Sea Surface Temperature''),
      bbox := Some [VInt 0, VInt 0, VInt 1, VInt 1],
      provider := Some [(u ''EMODnet Physics'', u ''provider'')],
      assets := [u ''https://example.org/sst.nc'']\<rparr>"

definition record_sst_again :: metadata where
  "record_sst_again = (blank_record (u ''r3''))\<lparr>title := Some (u ''sea surface - temperature''),
      bbox := Some [VInt 5, VInt 5, VInt 6, VInt 6],
      provider := Some [(u ''EMODnet Physics'', u ''provider'')],
      assets := [u ''https://example.org/sst2.nc'']\<rparr>"

definition record_waves :: metadata where
  "record_waves = (blank_record (u ''r2''))\<lparr>title := Some (u ''Wave Height''),
      bbox := Some [VInt 2, VInt 2, VInt 3, VInt 3],
      provider := Some [(u ''EMODnet Physics'', u ''provider'')],
      assets := [u ''https://example.org/waves.nc'']\<rparr>"

definition epoch :: pydatetime where
  "epoch = \<lparr>year = 1970, month = 1, day = 1, hour = 0, minute = 0, second = 0,
             microsecond = 0, utcoffset = Some 0\<rparr>"

definition far_future :: pydatetime where
  "far_future = \<lparr>year = 2100, month = 1, day = 1, hour = 0, minute = 0, second = 0,
                  microsecond = 0, utcoffset = Some 0\<rparr>"

text \<open>A record without dates after \<open>update_datetimes\<close> and the conversion of the two defaults.\<close>

definition dated :: "metadata \<Rightarrow> metadata" where
  "dated md = md\<lparr>start_datetime := Some default_start, end_datetime := Some default_end,
                  start_stamp := Some epoch, end_stamp := Some far_future\<rparr>"

definition item_sst :: stac_item where
  "item_sst = new_stac_item (dated record_sst) physics (u ''sea_surface_temperature'')
                (Fin 0, Fin 0, Fin 1, Fin 1) [] (u ''EMODnet Physics'')"

definition physics1 :: stac_collection where
  "physics1 = attach_item physics item_sst"

definition item_waves :: stac_item where
  "item_waves = new_stac_item (dated record_waves) physics1 (u ''wave_height'')
                  (Fin 2, Fin 2, Fin 3, Fin 3) [] (u ''EMODnet Physics'')"

definition physics2 :: stac_collection where
  "physics2 = attach_item physics1 item_waves"

text \<open>
  A family without collections, and a record of a provider that is not an EMODnet lot: the
  source catalog gave it the label \<open>Unknown\<close> and the record names its creator.
\<close>

definition biodiversity :: stac_family where
  "biodiversity = \<lparr>fam_id = u ''biodiversity'', fam_title = u ''Biodiversity'',
                    fam_description = u ''Variable Family Biodiversity'', fam_collections = []\<rparr>"

definition record_vliz :: metadata where
  "record_vliz = (blank_record (u ''r4''))\<lparr>title := Some (u ''Fish counts''),
      creator := Some (u ''Flanders Marine Institute''),
      provider := Some [(u ''Unknown'', u ''provider'')],
      assets := [u ''https://example.org/fish.csv'']\<rparr>"

text \<open>
  A record created at ten o'clock in a zone two hours east of UTC and modified one hour
  later, at nine o'clock UTC; and the first of May 2020 at a given hour, UTC.
\<close>

definition record_two_zones :: metadata where
  "record_two_zones = (blank_record (u ''r5''))\<lparr>created := Some (u ''2020-05-01T10:00:00+02:00''),
      modified := Some (u ''2020-05-01T09:00:00Z'')\<rparr>"

definition may_2020 :: "int \<Rightarrow> pydatetime" where
  "may_2020 h = \<lparr>year = 2020, month = 5, day = 1, hour = h, minute = 0, second = 0,
                  microsecond = 0, utcoffset = Some 0\<rparr>"

text \<open>Records whose bbox has a string \<open>NaN\<close>, and a string that is no number.\<close>

definition record_nan :: metadata where
  "record_nan = (blank_record (u ''r6''))\<lparr>bbox := Some [VInt 10, VStr (u ''NaN''), VInt 20, VInt 30]\<rparr>"

definition record_abc :: metadata where
  "record_abc = (blank_record (u ''r7''))\<lparr>bbox := Some [VStr (u ''abc''), VInt 10, VInt 20, VInt 30]\<rparr>"

section \<open>Properties of the progress store\<close>

text \<open>
  C2.  \<open>update_progress\<close> has no branch for the reasons \<open>failed_to_add\<close> and
  \<open>record_no_title\<close>, although \<open>process_records\<close> and \<open>check_stac_ok\<close> call it with them: the
  record comes back unmarked and no entry is made, the store is only written out again.
  On an empty store it stays empty, also when \<open>check_stac_ok\<close> rejects a record without
  title.
\<close>

theorem update_progress_unhandled_reasons:
  "update_progress st r (u ''failed'') (u ''failed_to_add'') = (r, persist st)
   \<and> update_progress st r (u ''failed'') (u ''record_no_title'') = (r, persist st)
   \<and> update_progress empty_store (blank_record (u ''r1'')) (u ''failed'') (u ''failed_to_add'')
     = (blank_record (u ''r1''), empty_store)
   \<and> update_progress empty_store (blank_record (u ''r1'')) (u ''failed'') (u ''record_no_title'')
     = (blank_record (u ''r1''), empty_store)
   \<and> check_stac_ok empty_store [] record_untitled = (False, record_untitled, empty_store)"
proof -
  have n: "u ''failed_to_add'' \<noteq> u ''no_assets''" "u ''failed_to_add'' \<noteq> u ''already_exists''"
    "u ''failed_to_add'' \<noteq> u ''no_data''" "u ''record_no_title'' \<noteq> u ''no_assets''"
    "u ''record_no_title'' \<noteq> u ''already_exists''" "u ''record_no_title'' \<noteq> u ''no_data''"
    "u ''failed'' \<noteq> u ''successful''"
    by (simp_all add: u_def)
  have a: "update_progress st r (u ''failed'') (u ''failed_to_add'') = (r, persist st)"
    and b: "update_progress st r (u ''failed'') (u ''record_no_title'') = (r, persist st)" for st r
    by (simp_all add: update_progress_def n)
  have p: "persist empty_store = empty_store" by (simp add: persist_def empty_store_def)
  have "check_stac_ok empty_store [] record_untitled = (False, record_untitled, empty_store)"
    by (simp add: check_stac_ok_def b p record_untitled_def blank_record_def truthy_def)
  with a b p show ?thesis by simp
qed

section \<open>Properties of the example interpreter\<close>

lemma sample_lower_ascii: "is_ascii s \<Longrightarrow> sample_lower s = map ascii_lower s"
  by (induction s) (auto simp: sample_lower_def is_ascii_def)

lemma cpython_sample_ascii: "ascii_runtime cpython_sample"
  by (auto simp: ascii_runtime_def cpython_sample_def sample_isalnum_def sample_lower_ascii)

section \<open>Properties of custom\_slugify\<close>

lemma dot_digit_id: "dot_digit rt s = s"
  by (induction rt s rule: dot_digit.induct) auto

lemma collapse_runs_no_sep:
  "list_all (\<lambda>c. \<not> sep_char rt c) s \<Longrightarrow> collapse_runs rt separator s = s"
  by (induction s) auto

lemma collapse_runs_chars:
  "c \<in> set (collapse_runs rt separator s) \<Longrightarrow> c \<in> set separator \<or> (c \<in> set s \<and> \<not> sep_char rt c)"
proof (induction rt separator s rule: collapse_runs.induct)
  case (1 rt separator) then show ?case by simp
next
  case (2 rt separator d ds)
  show ?case
  proof (cases "sep_char rt d")
    case True
    with 2 have "c \<in> set separator \<or> c \<in> set (collapse_runs rt separator (dropWhile (sep_char rt) ds))"
      by auto
    with 2(1)[OF True] have "c \<in> set separator \<or> (c \<in> set (dropWhile (sep_char rt) ds) \<and> \<not> sep_char rt c)"
      by blast
    then show ?thesis using set_dropWhileD by fastforce
  next
    case False
    with 2 show ?thesis by auto
  qed
qed

text \<open>A slug of word characters and dots that \<open>lower\<close> leaves alone is its own slug.\<close>

lemma slugify_fixed:
  assumes "\<forall>d\<in>set y. (is_word rt d \<or> d = 46) \<and> \<not> sep_char rt d" and "py_lower rt y = y"
  shows "custom_slugify rt y = y"
proof -
  have a: "list_all (\<lambda>c. \<not> sep_char rt c) y" and c: "list_all (kept rt) y"
    using assms(1) by (auto simp: list_all_iff kept_def)
  have "filter (kept rt) y = y" using c by (simp add: list_all_iff)
  then show ?thesis
    by (simp add: custom_slugify_def custom_slugify_with_def collapse_runs_no_sep[OF a]
        dot_digit_id assms(2))
qed

lemma ascii_runtime_chars:
  assumes "ascii_runtime rt" and "c < 128"
  shows "py_isalnum rt c = ascii_alnum c" "py_isspace rt c = ascii_space c"
    "py_isdecimal rt c = ascii_digit c"
  using assms by (simp_all add: ascii_runtime_def)

lemma ascii_runtime_lower:
  assumes "ascii_runtime rt" and "is_ascii s"
  shows "py_lower rt s = map ascii_lower s"
  using assms by (simp add: ascii_runtime_def)

lemma ascii_lower_char:
  assumes "c < 128" and "ascii_alnum c \<or> c = 95 \<or> c = 46" and "\<not> ascii_space c" and "c \<noteq> 45"
  shows "ascii_lower c < 128" "ascii_alnum (ascii_lower c) \<or> ascii_lower c = 95 \<or> ascii_lower c = 46"
    "\<not> ascii_space (ascii_lower c)" "ascii_lower c \<noteq> 45" "ascii_lower (ascii_lower c) = ascii_lower c"
  using assms by (auto simp: ascii_lower_def ascii_alnum_def ascii_digit_def ascii_space_def)

lemma slugify_ascii:
  assumes rt: "ascii_runtime rt" and x: "is_ascii x"
  shows "custom_slugify rt (custom_slugify rt x) = custom_slugify rt x"
proof -
  define z where "z = filter (kept rt) (dot_digit rt (collapse_runs rt (u ''_'') x))"
  have zc: "c < 128 \<and> (ascii_alnum c \<or> c = 95 \<or> c = 46) \<and> \<not> ascii_space c \<and> c \<noteq> 45"
    if c: "c \<in> set z" for c
  proof -
    from c have k: "kept rt c" and m: "c \<in> set (collapse_runs rt (u ''_'') x)"
      by (simp_all add: z_def dot_digit_id)
    from collapse_runs_chars[OF m] have d: "c = 95 \<or> (c \<in> set x \<and> \<not> sep_char rt c)"
      by (simp add: u_def)
    then show ?thesis
    proof
      assume "c = 95"
      then show ?thesis by (simp add: ascii_space_def)
    next
      assume h: "c \<in> set x \<and> \<not> sep_char rt c"
      with x have l: "c < 128" by (simp add: is_ascii_def list_all_iff)
      from h k l show ?thesis
        by (auto simp: kept_def is_word_def sep_char_def ascii_runtime_chars[OF rt l])
    qed
  qed
  then have za: "is_ascii z" by (simp add: is_ascii_def list_all_iff)
  have s: "custom_slugify rt x = map ascii_lower z"
    using ascii_runtime_lower[OF rt za] by (simp add: custom_slugify_def custom_slugify_with_def z_def)
  have 1: "\<forall>d\<in>set (map ascii_lower z). (is_word rt d \<or> d = 46) \<and> \<not> sep_char rt d"
  proof
    fix d assume "d \<in> set (map ascii_lower z)"
    then obtain c where c: "c \<in> set z" "d = ascii_lower c" by auto
    from zc[OF c(1)] have l: "d < 128" and w: "ascii_alnum d \<or> d = 95 \<or> d = 46"
      and n: "\<not> ascii_space d" "d \<noteq> 45"
      unfolding c(2) using ascii_lower_char by blast+
    from w n show "(is_word rt d \<or> d = 46) \<and> \<not> sep_char rt d"
      by (auto simp: is_word_def sep_char_def ascii_runtime_chars[OF rt l])
  qed
  have la: "is_ascii (map ascii_lower z)"
    using zc ascii_lower_char(1) by (simp add: is_ascii_def list_all_iff)
  have "map ascii_lower (map ascii_lower z) = map ascii_lower z"
    using zc ascii_lower_char(5) by simp
  with ascii_runtime_lower[OF rt la] have 2: "py_lower rt (map ascii_lower z) = map ascii_lower z"
    by simp
  from slugify_fixed[OF 1 2] show ?thesis unfolding s .
qed

lemmas slugify_eval = custom_slugify_def custom_slugify_with_def u_def sep_char_def kept_def
  is_word_def cpython_sample_def sample_isalnum_def sample_lower_def ascii_alnum_def
  ascii_digit_def ascii_space_def ascii_lower_def

text \<open>On ASCII text every interpreter gives the slug that the example interpreter gives.\<close>

lemma collapse_runs_ascii:
  assumes "ascii_runtime rt" and "is_ascii x"
  shows "collapse_runs rt sp x = collapse_runs cpython_sample sp x"
  using assms(2)
proof (induction cpython_sample sp x rule: collapse_runs.induct)
  case (1 sp) then show ?case by simp
next
  case (2 sp c cs)
  from 2(3) have l: "c < 128" and cs: "is_ascii cs" by (simp_all add: is_ascii_def)
  have e: "sep_char rt d = sep_char cpython_sample d" if "d < 128" for d
    using that by (simp add: sep_char_def ascii_runtime_chars[OF assms(1)]
        ascii_runtime_chars[OF cpython_sample_ascii])
  have dw: "dropWhile (sep_char rt) ys = dropWhile (sep_char cpython_sample) ys" if "is_ascii ys" for ys
    using that by (induction ys) (simp_all add: is_ascii_def e)
  have da: "is_ascii (dropWhile (sep_char cpython_sample) cs)"
    using cs set_dropWhileD by (fastforce simp: is_ascii_def list_all_iff)
  show ?case
  proof (cases "sep_char cpython_sample c")
    case True
    with 2(1)[OF True da] e[OF l] dw[OF cs] show ?thesis by simp
  next
    case False
    with 2(2)[OF False cs] e[OF l] show ?thesis by simp
  qed
qed

lemma collapse_runs_is_ascii:
  assumes "is_ascii sp" and "is_ascii x"
  shows "is_ascii (collapse_runs rt sp x)"
  using assms collapse_runs_chars[of _ rt sp x] by (fastforce simp: is_ascii_def list_all_iff)

lemma slugify_ascii_agrees:
  assumes rt: "ascii_runtime rt" and x: "is_ascii x"
  shows "custom_slugify rt x = custom_slugify cpython_sample x"
proof -
  have a: "is_ascii (collapse_runs cpython_sample (u ''_'') x)"
    using x by (intro collapse_runs_is_ascii) (simp_all add: is_ascii_def u_def)
  have k: "filter (kept rt) ys = filter (kept cpython_sample) ys" if "is_ascii ys" for ys
    using that
    by (induction ys)
       (simp_all add: is_ascii_def kept_def is_word_def ascii_runtime_chars[OF rt]
          ascii_runtime_chars[OF cpython_sample_ascii])
  have f: "is_ascii (filter (kept cpython_sample) (collapse_runs cpython_sample (u ''_'') x))"
    using a by (simp add: is_ascii_def list_all_iff)
  show ?thesis
    by (simp add: custom_slugify_def custom_slugify_with_def dot_digit_id
        collapse_runs_ascii[OF rt x] k[OF a] ascii_runtime_lower[OF rt f]
        ascii_runtime_lower[OF cpython_sample_ascii f])
qed

lemma sample_slugs:
  "custom_slugify cpython_sample (u ''EMODnet Seabed Habitats'') = u ''emodnet_seabed_habitats''"
  "custom_slugify cpython_sample (u ''emodnet_seabed_habitats'') = u ''emodnet_seabed_habitats''"
  "custom_slugify cpython_sample (u ''Sea Surface Temperature'') = u ''sea_surface_temperature''"
  "custom_slugify cpython_sample (u ''sea surface - temperature'') = u ''sea_surface_temperature''"
  "custom_slugify cpython_sample (u ''Wave Height'') = u ''wave_height''"
  by (simp_all add: slugify_eval)

text \<open>
  With the answers of the Unicode database for U+0130, U+0307 and the letter \<open>i\<close>, the slug
  of the one-character string U+0130 is \<open>i\<close> followed by U+0307, and the slug of that is \<open>i\<close>.
\<close>

lemma slugify_dotted_capital:
  assumes "py_isalnum rt 304" and "\<not> py_isspace rt 304" and "py_lower rt [304] = [105, 775]"
    and "py_isalnum rt 105" and "\<not> py_isspace rt 105"
    and "\<not> py_isalnum rt 775" and "\<not> py_isspace rt 775" and "py_lower rt [105] = [105]"
  shows "custom_slugify rt [304] = [105, 775]" and "custom_slugify rt [105, 775] = [105]"
  using assms
  by (simp_all add: custom_slugify_def custom_slugify_with_def dot_digit_id sep_char_def kept_def
      is_word_def u_def)

text \<open>
  C9 (amended).  \<open>custom_slugify\<close> is idempotent on every string whose slug consists of
  word characters and dots that are no separators and that \<open>lower\<close> leaves unchanged; with
  CPython's answers on ASCII, every ASCII string is one.
  \<open>custom_slugify("EMODnet Seabed Habitats")\<close> is \<open>emodnet_seabed_habitats\<close>: lowercase, the
  spaces collapsed to the separator.  It is not idempotent on every string: with the
  answers of the Unicode database for U+0130 (a letter whose lowercase is \<open>i\<close> followed by
  the mark U+0307), a second pass over the slug of U+0130 strips the mark.
\<close>

theorem custom_slugify_idempotent:
  "((\<forall>d\<in>set (custom_slugify rt x). (is_word rt d \<or> d = 46) \<and> \<not> sep_char rt d)
      \<and> py_lower rt (custom_slugify rt x) = custom_slugify rt x
     \<longrightarrow> custom_slugify rt (custom_slugify rt x) = custom_slugify rt x)
   \<and> (ascii_runtime rt \<and> is_ascii x
     \<longrightarrow> custom_slugify rt (custom_slugify rt x) = custom_slugify rt x)
   \<and> (ascii_runtime rt
     \<longrightarrow> custom_slugify rt (u ''EMODnet Seabed Habitats'') = u ''emodnet_seabed_habitats'')
   \<and> (py_isalnum rt 304 \<and> \<not> py_isspace rt 304 \<and> py_lower rt [304] = [105, 775]
      \<and> py_isalnum rt 105 \<and> \<not> py_isspace rt 105
      \<and> \<not> py_isalnum rt 775 \<and> \<not> py_isspace rt 775 \<and> py_lower rt [105] = [105]
     \<longrightarrow> custom_slugify rt [304] = [105, 775]
         \<and> custom_slugify rt (custom_slugify rt [304]) = [105])"
proof -
  have e: "is_ascii (u ''EMODnet Seabed Habitats'')" by (simp add: is_ascii_def u_def)
  have 1: "(\<forall>d\<in>set (custom_slugify rt x). (is_word rt d \<or> d = 46) \<and> \<not> sep_char rt d)
      \<and> py_lower rt (custom_slugify rt x) = custom_slugify rt x
     \<longrightarrow> custom_slugify rt (custom_slugify rt x) = custom_slugify rt x"
    using slugify_fixed[of "custom_slugify rt x" rt] by blast
  have 2: "ascii_runtime rt \<and> is_ascii x
     \<longrightarrow> custom_slugify rt (custom_slugify rt x) = custom_slugify rt x"
    using slugify_ascii[of rt x] by blast
  have 3: "ascii_runtime rt
     \<longrightarrow> custom_slugify rt (u ''EMODnet Seabed Habitats'') = u ''emodnet_seabed_habitats''"
    using slugify_ascii_agrees[OF _ e, of rt] sample_slugs(1) by simp
  have 4: "py_isalnum rt 304 \<and> \<not> py_isspace rt 304 \<and> py_lower rt [304] = [105, 775]
      \<and> py_isalnum rt 105 \<and> \<not> py_isspace rt 105
      \<and> \<not> py_isalnum rt 775 \<and> \<not> py_isspace rt 775 \<and> py_lower rt [105] = [105]
     \<longrightarrow> custom_slugify rt [304] = [105, 775]
         \<and> custom_slugify rt (custom_slugify rt [304]) = [105]"
    using slugify_dotted_capital[of rt] by simp
  from 1 2 3 4 show ?thesis by blast
qed

theorem custom_slugify_idempotent_witness:
  "ascii_runtime cpython_sample \<and> is_ascii (u ''EMODnet Seabed Habitats'')
   \<and> list_all (\<lambda>d. (is_word cpython_sample d \<or> d = 46) \<and> \<not> sep_char cpython_sample d)
       (custom_slugify cpython_sample (u ''EMODnet Seabed Habitats''))
   \<and> py_lower cpython_sample (custom_slugify cpython_sample (u ''EMODnet Seabed Habitats''))
       = custom_slugify cpython_sample (u ''EMODnet Seabed Habitats'')
   \<and> custom_slugify cpython_sample (u ''EMODnet Seabed Habitats'') = u ''emodnet_seabed_habitats''
   \<and> custom_slugify cpython_sample (custom_slugify cpython_sample (u ''EMODnet Seabed Habitats''))
       = u ''emodnet_seabed_habitats''
   \<and> py_isalnum cpython_sample 304 \<and> \<not> py_isspace cpython_sample 304
   \<and> py_lower cpython_sample [304] = [105, 775]
   \<and> py_isalnum cpython_sample 105 \<and> \<not> py_isspace cpython_sample 105
   \<and> \<not> py_isalnum cpython_sample 775 \<and> \<not> py_isspace cpython_sample 775
   \<and> py_lower cpython_sample [105] = [105]
   \<and> custom_slugify cpython_sample (custom_slugify cpython_sample [304]) = [105]"
proof -
  let ?x = "u ''EMODnet Seabed Habitats''"
  have e: "is_ascii ?x" by (simp add: is_ascii_def u_def)
  have k: "py_isalnum cpython_sample 304" "\<not> py_isspace cpython_sample 304"
    "py_lower cpython_sample [304] = [105, 775]"
    "py_isalnum cpython_sample 105" "\<not> py_isspace cpython_sample 105"
    "\<not> py_isalnum cpython_sample 775" "\<not> py_isspace cpython_sample 775"
    "py_lower cpython_sample [105] = [105]"
    by (simp_all add: cpython_sample_def sample_isalnum_def sample_lower_def ascii_alnum_def
        ascii_digit_def ascii_space_def ascii_lower_def)
  from custom_slugify_idempotent[of cpython_sample ?x] cpython_sample_ascii e k
  have a: "custom_slugify cpython_sample (custom_slugify cpython_sample ?x) = custom_slugify cpython_sample ?x"
    and b: "custom_slugify cpython_sample ?x = u ''emodnet_seabed_habitats''"
    and i: "custom_slugify cpython_sample (custom_slugify cpython_sample [304]) = [105]"
    by blast+
  from a b have c: "custom_slugify cpython_sample (custom_slugify cpython_sample ?x)
             = u ''emodnet_seabed_habitats''" by (rule trans)
  have d: "list_all (\<lambda>d. (is_word cpython_sample d \<or> d = 46) \<and> \<not> sep_char cpython_sample d)
       (u ''emodnet_seabed_habitats'')"
    by (simp add: slugify_eval)
  have l: "py_lower cpython_sample (u ''emodnet_seabed_habitats'') = u ''emodnet_seabed_habitats''"
    by (simp add: slugify_eval)
  from cpython_sample_ascii e b c d l k i show ?thesis by simp
qed

text \<open>
  The claim as stated, for every string, fails at the one-character string U+0130: its
  slug is \<open>i\<close> followed by U+0307, and a second pass strips the combining mark.
\<close>

theorem custom_slugify_not_idempotent:
  "custom_slugify cpython_sample [304] = [105, 775]
   \<and> custom_slugify cpython_sample (custom_slugify cpython_sample [304]) = [105]
   \<and> custom_slugify cpython_sample (custom_slugify cpython_sample [304])
       \<noteq> custom_slugify cpython_sample [304]"
  by (simp add: slugify_eval)

section \<open>Correctness of the matcher\<close>

lemma nullable_iff: "nullable r \<longleftrightarrow> [] \<in> lang r"
  by (induction r) (auto intro: star.star_nil)

lemma lang_seq: "lang (seq r s) = lang (Seq r s)"
  by (induction r s rule: seq.induct) auto

lemma lang_alt: "lang (alt r s) = lang r \<union> lang s"
  by (induction r s rule: alt.induct) auto

lemma star_cons:
  "c # w \<in> star L \<longleftrightarrow> (\<exists>a b. w = a @ b \<and> c # a \<in> L \<and> b \<in> star L)"
proof
  assume "c # w \<in> star L"
  then show "\<exists>a b. w = a @ b \<and> c # a \<in> L \<and> b \<in> star L"
  proof (induction "c # w" rule: star.induct)
    case (star_app a b)
    show ?case
    proof (cases a)
      case Nil
      with star_app show ?thesis by simp
    next
      case (Cons x xs)
      with star_app show ?thesis by auto
    qed
  qed
next
  assume "\<exists>a b. w = a @ b \<and> c # a \<in> L \<and> b \<in> star L"
  then obtain a b where "w = a @ b" "c # a \<in> L" "b \<in> star L" by blast
  then show "c # w \<in> star L" using star.star_app[of "c # a" L b] by simp
qed

lemma deriv_lang: "w \<in> lang (deriv c r) \<longleftrightarrow> c # w \<in> lang r"
proof (induction r arbitrary: w)
  case (Seq r s)
  have "c # w \<in> lang (Seq r s) \<longleftrightarrow>
        ([] \<in> lang r \<and> c # w \<in> lang s) \<or> (\<exists>a b. w = a @ b \<and> c # a \<in> lang r \<and> b \<in> lang s)"
    by (auto simp: Cons_eq_append_conv)
  with Seq show ?case
    by (auto simp: lang_seq lang_alt nullable_iff)
next
  case (Star r)
  then show ?case by (auto simp: lang_seq star_cons)
qed (auto simp: lang_alt)

lemma match_prefix_iff: "match_prefix r s \<longleftrightarrow> (\<exists>p q. s = p @ q \<and> p \<in> lang r)"
proof (induction s arbitrary: r)
  case Nil
  then show ?case by (simp add: nullable_iff)
next
  case (Cons c cs)
  have n: "is_nul d \<Longrightarrow> lang d = {}" for d by (cases d) auto
  have "(\<exists>p q. c # cs = p @ q \<and> p \<in> lang r) \<longleftrightarrow>
        [] \<in> lang r \<or> (\<exists>p q. cs = p @ q \<and> c # p \<in> lang r)"
    by (auto simp: Cons_eq_append_conv)
  moreover have "(\<exists>p q. cs = p @ q \<and> c # p \<in> lang r) \<longleftrightarrow> match_prefix (deriv c r) cs"
    by (simp add: Cons deriv_lang)
  moreover have "is_nul (deriv c r) \<Longrightarrow> \<not> match_prefix (deriv c r) cs"
    using n[of "deriv c r"] by (simp add: Cons)
  ultimately show ?case
    by (auto simp: nullable_iff)
qed

lemma re_search_iff: "re_search r s \<longleftrightarrow> (\<exists>a p b. s = a @ p @ b \<and> p \<in> lang r)"
proof (induction s)
  case Nil
  then show ?case by (simp add: nullable_iff)
next
  case (Cons c cs)
  have "(\<exists>a p b. c # cs = a @ p @ b \<and> p \<in> lang r) \<longleftrightarrow>
        (\<exists>p b. c # cs = p @ b \<and> p \<in> lang r) \<or> (\<exists>a p b. cs = a @ p @ b \<and> p \<in> lang r)"
    (is "?L \<longleftrightarrow> ?A \<or> ?B")
  proof
    assume ?L
    then obtain a p b where h: "c # cs = a @ p @ b" "p \<in> lang r" by blast
    show "?A \<or> ?B"
    proof (cases a)
      case Nil with h show ?thesis by auto
    next
      case (Cons x xs) with h show ?thesis by auto
    qed
  next
    assume "?A \<or> ?B"
    then show ?L
    proof
      assume ?A then show ?L by (metis append_Nil)
    next
      assume ?B
      then obtain a p b where "cs = a @ p @ b" "p \<in> lang r" by blast
      then have "c # cs = (c # a) @ p @ b" "p \<in> lang r" by simp_all
      then show ?L by blast
    qed
  qed
  with Cons show ?case by (simp add: match_prefix_iff)
qed

lemma lang_lit: "lang (lit s) = {u s}"
  by (induction s) (auto simp: lit_def ch_def u_def)

lemma contains_iff: "contains s sub \<longleftrightarrow> (\<exists>a b. s = a @ sub @ b)"
proof (induction s)
  case Nil then show ?case by auto
next
  case (Cons c cs)
  have "startswith (c # cs) sub \<longleftrightarrow> (\<exists>b. c # cs = sub @ b)"
    unfolding startswith_def by (metis append_eq_conv_conj)
  moreover have "(\<exists>a b. c # cs = a @ sub @ b) \<longleftrightarrow> (\<exists>b. c # cs = sub @ b) \<or> (\<exists>a b. cs = a @ sub @ b)"
    (is "?L \<longleftrightarrow> ?A \<or> ?B")
  proof
    assume ?L
    then obtain a b where h: "c # cs = a @ sub @ b" by blast
    show "?A \<or> ?B"
    proof (cases a)
      case Nil with h show ?thesis by auto
    next
      case (Cons x xs) with h show ?thesis by auto
    qed
  next
    assume "?A \<or> ?B"
    then show ?L
    proof
      assume ?A then show ?L by (metis append_Nil)
    next
      assume ?B
      then obtain a b where "cs = a @ sub @ b" by blast
      then have "c # cs = (c # a) @ sub @ b" by simp
      then show ?L by blast
    qed
  qed
  ultimately show ?case using Cons by simp
qed

section \<open>Properties of the link classifier\<close>

lemma match_extension_find:
  "match_extension tbl url = map_option snd (find (\<lambda>(ext, i). endswith url ext) tbl)"
  by (induction tbl) auto

lemma match_pattern_find:
  "match_pattern tbl url = map_option snd (find (\<lambda>(p, i). re_search p url) tbl)"
  by (induction tbl) auto

lemmas rx_eval = ch_def lit_def dot_def opt_def plus_def seqs_def host_char_def alpha_char_def
  ipt_host_def ipt_resource_rx_def ipt_archive_rx_def

lemmas media_eval = get_media_type_def media_types_def url_patterns_def info_def endswith_def u_def

text \<open>
  C7.  \<open>get_media_type\<close> returns the classification of the first entry of the extension
  table whose extension the URL ends with; only when there is none, that of the first entry
  of the pattern table that \<open>re.search\<close> finds in the URL; else nothing.  So a URL that ends
  in a known extension and also contains a pattern is classified by the extension rule.
\<close>

theorem get_media_type_extension_first:
  "get_media_type url =
     (case find (\<lambda>(ext, i). endswith url ext) media_types of
        Some (ext, i) \<Rightarrow> Some i
      | None \<Rightarrow> (case find (\<lambda>(p, i). re_search p url) url_patterns of
                  Some (p, i) \<Rightarrow> Some i
                | None \<Rightarrow> None))
   \<and> ((\<exists>(ext, i) \<in> set media_types. endswith url ext) \<and>
      (\<exists>(p, i) \<in> set url_patterns. re_search p url) \<longrightarrow>
        (\<exists>ext i. find (\<lambda>(ext, i). endswith url ext) media_types = Some (ext, i)
                 \<and> endswith url ext \<and> get_media_type url = Some i))"
proof -
  have a: "get_media_type url =
     (case find (\<lambda>(ext, i). endswith url ext) media_types of
        Some (ext, i) \<Rightarrow> Some i
      | None \<Rightarrow> (case find (\<lambda>(p, i). re_search p url) url_patterns of
                  Some (p, i) \<Rightarrow> Some i
                | None \<Rightarrow> None))"
    by (auto simp: get_media_type_def match_extension_find match_pattern_find split: option.splits)
  have b: "\<exists>ext i. find (\<lambda>(ext, i). endswith url ext) media_types = Some (ext, i)
                 \<and> endswith url ext \<and> get_media_type url = Some i"
    if "\<exists>(ext, i) \<in> set media_types. endswith url ext"
  proof -
    from that have "find (\<lambda>(ext, i). endswith url ext) media_types \<noteq> None"
      unfolding find_None_iff by blast
    then obtain ext i where f: "find (\<lambda>(ext, i). endswith url ext) media_types = Some (ext, i)"
      by (cases "find (\<lambda>(ext, i). endswith url ext) media_types") auto
    then have "endswith url ext" by (auto simp: find_Some_iff)
    with f a show ?thesis by simp
  qed
  from a b show ?thesis by blast
qed

theorem get_media_type_extension_first_witness:
  "(\<exists>(ext, i) \<in> set media_types. endswith (u ''https://example.org/wms/data.nc'') ext)
   \<and> (\<exists>(p, i) \<in> set url_patterns. re_search p (u ''https://example.org/wms/data.nc''))
   \<and> get_media_type (u ''https://example.org/wms/data.nc'')
       = Some (info ''netcdf'' ''NetCDF'' ''application/vnd+netcdf'' [''data''])"
proof -
  let ?url = "u ''https://example.org/wms/data.nc''"
  have e: "(u ''.nc'', info ''netcdf'' ''NetCDF'' ''application/vnd+netcdf'' [''data'']) \<in> set media_types"
    by (simp add: media_types_def)
  have "endswith ?url (u ''.nc'')" by (simp add: endswith_def u_def)
  with e have h1: "\<exists>(ext, i) \<in> set media_types. endswith ?url ext" by blast
  have p: "(lit ''wms'', info ''wms'' ''WMS'' ''OGC:WMS'' [''thumbnail'']) \<in> set url_patterns"
    by (simp add: url_patterns_def)
  have "re_search (lit ''wms'') ?url" by (simp add: rx_eval u_def)
  with p have h2: "\<exists>(p, i) \<in> set url_patterns. re_search p ?url" by blast
  from get_media_type_extension_first[of ?url] h1 h2
  obtain ext i where f: "find (\<lambda>(ext, i). endswith ?url ext) media_types = Some (ext, i)"
    and g: "get_media_type ?url = Some i" by blast
  have "find (\<lambda>(ext, i). endswith ?url ext) media_types
          = Some (u ''.nc'', info ''netcdf'' ''NetCDF'' ''application/vnd+netcdf'' [''data''])"
    by (simp add: media_types_def endswith_def u_def)
  with f g have "get_media_type ?url = Some (info ''netcdf'' ''NetCDF'' ''application/vnd+netcdf'' [''data''])"
    by simp
  with h1 h2 show ?thesis by blast
qed

section \<open>Properties of the IPT conversion\<close>

lemma search_ipt_resource:
  assumes "re_search ipt_resource_rx url"
  shows "contains url (u ''/resource?r='')"
proof -
  from assms obtain a p b where h: "url = a @ p @ b" "p \<in> lang ipt_resource_rx"
    by (auto simp: re_search_iff)
  from h(2) obtain q where "p = q @ u ''/resource?r=''"
    by (auto simp: ipt_resource_rx_def lang_lit)
  with h(1) have "url = (a @ q) @ u ''/resource?r='' @ b" by simp
  then show ?thesis unfolding contains_iff by blast
qed

lemma iptresource_only_by_pattern:
  assumes "map_option fst (get_media_type url) = Some (u ''iptresource'')"
  shows "re_search ipt_resource_rx url"
proof (rule ccontr)
  assume n: "\<not> re_search ipt_resource_rx url"
  have e: "\<forall>i \<in> snd ` set media_types. fst i \<noteq> u ''iptresource''"
    by (simp add: media_types_def info_def u_def)
  have "match_extension tbl url = Some i \<Longrightarrow> i \<in> snd ` set tbl" for tbl i
    by (induction tbl) (auto split: if_splits)
  with e have 1: "match_extension media_types url = Some i \<Longrightarrow> fst i \<noteq> u ''iptresource''" for i
    by blast
  have 2: "match_pattern url_patterns url = Some i \<Longrightarrow> fst i \<noteq> u ''iptresource''" for i
    using n by (auto simp: url_patterns_def info_def u_def split: if_splits)
  from assms 1 2 show False
    by (auto simp: get_media_type_def split: option.splits)
qed

lemma replace_from_skip:
  assumes "old \<noteq> []" "hd old \<notin> set w"
  shows "replace_from old new (w @ r) = w @ replace_from old new r"
  using assms
proof (induction w)
  case Nil then show ?case by simp
next
  case (Cons c w)
  then have "\<not> startswith (c # w @ r) old"
    by (cases old) (auto simp: startswith_def)
  with Cons show ?case by simp
qed

lemma contains_Cons: "contains (c # cs) sub \<longleftrightarrow> startswith (c # cs) sub \<or> contains cs sub"
  by simp

lemma contains_appendI: "contains s sub \<Longrightarrow> contains (p @ s) sub"
  unfolding contains_iff by (metis append.assoc)

lemma startswith_iff: "startswith s p \<longleftrightarrow> (\<exists>r. s = p @ r)"
  unfolding startswith_def by (metis append_eq_conv_conj)

lemma https_keeps_resource:
  "contains s (u ''/resource?r='') \<Longrightarrow>
   contains (replace_from (u ''http://'') (u ''https://'') s) (u ''/resource?r='')"
proof (induction "u ''http://''" "u ''https://''" s rule: replace_from.induct)
  case 1
  then show ?case by (simp add: u_def)
next
  case (2 c cs)
  let ?W = "u ''/resource?r=''"
  have skip: "replace_from (u ''http://'') (u ''https://'') (w @ r) = w @ replace_from (u ''http://'') (u ''https://'') r"
    if "104 \<notin> set w" for w r
    using replace_from_skip[of "u ''http://''" w "u ''https://''" r] that by (simp add: u_def)
  show ?case
  proof (cases "startswith (c # cs) (u ''http://'')")
    case True
    then obtain r where r: "c # cs = u ''http://'' @ r" unfolding startswith_iff by blast
    then have d: "drop (length (u ''http://'') - 1) cs = r" by (simp add: u_def)
    from 2(3) r have "contains (u ''http://'' @ r) ?W" by simp
    then have "contains r ?W \<or> startswith r (u ''resource?r='')"
      by (auto simp: u_def startswith_def)
    then show ?thesis
    proof
      assume "contains r ?W"
      with 2(1)[OF True] d have "contains (replace_from (u ''http://'') (u ''https://'') r) ?W" by simp
      then have "contains (u ''https://'' @ replace_from (u ''http://'') (u ''https://'') r) ?W"
        by (rule contains_appendI)
      with True d show ?thesis by simp
    next
      assume "startswith r (u ''resource?r='')"
      then obtain t where t: "r = u ''resource?r='' @ t" unfolding startswith_iff by blast
      have "replace_from (u ''http://'') (u ''https://'') r
             = u ''resource?r='' @ replace_from (u ''http://'') (u ''https://'') t"
        unfolding t by (rule skip) (simp add: u_def)
      then have "u ''https://'' @ replace_from (u ''http://'') (u ''https://'') r
             = u ''https:/'' @ ?W @ replace_from (u ''http://'') (u ''https://'') t"
        by (simp add: u_def)
      then have "contains (u ''https://'' @ replace_from (u ''http://'') (u ''https://'') r) ?W"
        unfolding contains_iff by blast
      with True d show ?thesis by simp
    qed
  next
    case False
    from 2(3) have "startswith (c # cs) ?W \<or> contains cs ?W" by simp
    then show ?thesis
    proof
      assume "startswith (c # cs) ?W"
      then obtain t where t: "c # cs = ?W @ t" unfolding startswith_iff by blast
      have "replace_from (u ''http://'') (u ''https://'') (?W @ t)
             = ?W @ replace_from (u ''http://'') (u ''https://'') t"
        by (rule skip) (simp add: u_def)
      then have "contains (replace_from (u ''http://'') (u ''https://'') (?W @ t)) ?W"
        unfolding contains_iff by (metis append_Nil)
      with t show ?thesis by simp
    next
      assume "contains cs ?W"
      with 2(2)[OF False] have "contains (replace_from (u ''http://'') (u ''https://'') cs) ?W" by simp
      then have "contains ([c] @ replace_from (u ''http://'') (u ''https://'') cs) ?W"
        by (rule contains_appendI)
      with False show ?thesis by simp
    qed
  qed
qed

lemma https_link_keeps_resource:
  "contains s (u ''/resource?r='') \<Longrightarrow> contains (https_link s) (u ''/resource?r='')"
  using https_keeps_resource[of s] by (simp add: https_link_def replace_def u_def)

text \<open>
  C10.  A URL that \<open>get_media_type\<close> classifies as \<open>iptresource\<close> contains \<open>/resource?r=\<close>;
  so does the link after the rewrite of \<open>http://\<close> to \<open>https://\<close>; hence
  \<open>convert_ipt_to_dwca\<close> does not reach its \<open>ValueError\<close>: it returns the rewritten archive
  URL when the live test succeeds, that is when the request for it is answered with the
  status 200, and \<open>None\<close> otherwise.
\<close>

theorem iptresource_conversion_total:
  assumes "map_option fst (get_media_type url) = Some (u ''iptresource'')"
  shows "contains url (u ''/resource?r='')
       \<and> contains (https_link url) (u ''/resource?r='')
       \<and> convert_ipt_to_dwca net ident url
           = Inr (if net (replace (https_link url) (u ''/resource?r='') (u ''/archive.do?r=''))
                       = Response 200
                  then Some (replace (https_link url) (u ''/resource?r='') (u ''/archive.do?r=''))
                  else None)"
proof -
  have a: "contains url (u ''/resource?r='')"
    using assms iptresource_only_by_pattern search_ipt_resource by blast
  then have b: "contains (https_link url) (u ''/resource?r='')" by (rule https_link_keeps_resource)
  have t: "tested_dwca net ident d = (if net d = Response 200 then Some d else None)" for d
    by (cases "net d") (simp_all add: tested_dwca_def test_link_def)
  from b have "convert_ipt_to_dwca net ident url
           = Inr (tested_dwca net ident (replace (https_link url) (u ''/resource?r='') (u ''/archive.do?r='')))"
    by (simp add: convert_ipt_to_dwca_def)
  with a b show ?thesis unfolding t by simp
qed

theorem iptresource_conversion_total_witness:
  "map_option fst (get_media_type (u ''http://ipt.vliz.be/eurobis/resource?r=abc'')) = Some (u ''iptresource'')
   \<and> convert_ipt_to_dwca (\<lambda>x. Response 200) (u ''r1'') (u ''http://ipt.vliz.be/eurobis/resource?r=abc'')
       = Inr (Some (u ''https://ipt.vliz.be/eurobis/archive.do?r=abc''))
   \<and> convert_ipt_to_dwca (\<lambda>x. Response 404) (u ''r1'') (u ''http://ipt.vliz.be/eurobis/resource?r=abc'')
       = Inr None
   \<and> convert_ipt_to_dwca (\<lambda>x. Response 204) (u ''r1'') (u ''http://ipt.vliz.be/eurobis/resource?r=abc'')
       = Inr None
   \<and> convert_ipt_to_dwca (\<lambda>x. RequestException) (u ''r1'') (u ''http://ipt.vliz.be/eurobis/resource?r=abc'')
       = Inr None
   \<and> convert_ipt_to_dwca
         (\<lambda>x. if x = u ''https://ipt.vliz.be/eurobis/archive.do?r=abc'' then Response 200 else RequestException)
         (u ''r1'') (u ''http://ipt.vliz.be/eurobis/resource?r=abc'')
       = Inr (Some (u ''https://ipt.vliz.be/eurobis/archive.do?r=abc''))"
proof -
  let ?url = "u ''http://ipt.vliz.be/eurobis/resource?r=abc''"
  let ?d = "u ''https://ipt.vliz.be/eurobis/archive.do?r=abc''"
  have h: "map_option fst (get_media_type ?url) = Some (u ''iptresource'')"
    by (simp add: media_eval rx_eval)
  have r: "replace (https_link ?url) (u ''/resource?r='') (u ''/archive.do?r='') = ?d"
    by (simp add: https_link_def replace_def startswith_def u_def)
  have c: "convert_ipt_to_dwca net (u ''r1'') ?url = Inr (if net ?d = Response 200 then Some ?d else None)"
    for net
    using iptresource_conversion_total[OF h, of net "u ''r1''"] unfolding r by blast
  from h c[of "\<lambda>x. Response 200"] c[of "\<lambda>x. Response 404"] c[of "\<lambda>x. Response 204"]
    c[of "\<lambda>x. RequestException"]
    c[of "\<lambda>x. if x = ?d then Response 200 else RequestException"]
  show ?thesis by simp
qed

section \<open>Properties of finalize\_boundaries\<close>

lemmas feval = sample_float_def sample_float_of_str_def signed_value_def c_strip_def c_space_def
  ascii_digit_def split_sign_def decimal_of_def fraction_of_def mantissa_exponent_def
  exponent_of_def digits_value_def ascii_lower_def u_def nearest_double_def floor_log2_def
  bit_length.simps Let_def

lemma chosen_source_box:
  "chosen_source md = Some b \<Longrightarrow> finalize_boundaries rt md = box_of rt b"
  by (auto simp: chosen_source_def finalize_boundaries_def split: option.splits list.splits)

lemma coordinate_names:
  "contains (u ''longitude minimum'') (u ''min'')" "contains (u ''latitude minimum'') (u ''min'')"
  "\<not> contains (u ''longitude maximum'') (u ''min'')" "\<not> contains (u ''latitude maximum'') (u ''min'')"
  by (simp_all add: startswith_def u_def)

text \<open>A coordinate that \<open>float\<close> rejects becomes its bound; one inside its range is kept.\<close>

lemma validate_rejected:
  assumes "py_float rt c = Inl ValueError \<or> py_float rt c = Inl TypeError"
  shows "validate_and_convert rt c lo hi name
           = Inr (Fin (if contains name (u ''min'') then lo else hi))"
  using assms by (auto simp: validate_and_convert_def)

lemma validate_in_range:
  assumes "py_float rt c = Inr (Fin x)" and "\<bar>x\<bar> \<le> h"
  shows "validate_and_convert rt c (- h) h name = Inr (Fin x)"
  using assms by (auto simp: validate_and_convert_def)

lemma box_of_four:
  assumes "\<not> list_ex (nan_like rt) b" and "4 \<le> length b"
    and "validate_and_convert rt (b ! 0) (- 180) 180 (u ''longitude minimum'') = Inr v0"
    and "validate_and_convert rt (b ! 1) (- 90) 90 (u ''latitude minimum'') = Inr v1"
    and "validate_and_convert rt (b ! 2) (- 180) 180 (u ''longitude maximum'') = Inr v2"
    and "validate_and_convert rt (b ! 3) (- 90) 90 (u ''latitude maximum'') = Inr v3"
  shows "box_of rt b = Inr [v0, v1, v2, v3]"
proof -
  from assms(2) have "0 < length b" "1 < length b" "2 < length b" "3 < length b" by linarith+
  then have "item_at b 0 = Inr (b ! 0)" "item_at b 1 = Inr (b ! 1)" "item_at b 2 = Inr (b ! 2)"
    "item_at b 3 = Inr (b ! 3)"
    unfolding item_at_def by simp_all
  with assms(1,3-6) show ?thesis by (simp add: box_of_def then_do_def)
qed

lemma box_one_rejected:
  assumes n: "\<not> list_ex (nan_like rt) b" and l: "4 \<le> length b" and i: "i < 4"
    and r: "py_float rt (b ! i) = Inl ValueError \<or> py_float rt (b ! i) = Inl TypeError"
    and o: "\<forall>j<4. j \<noteq> i \<longrightarrow> py_float rt (b ! j) = Inr (Fin (x j))
                \<and> \<bar>x j\<bar> \<le> (if even j then 180 else 90)"
  shows "box_of rt b = Inr (map (\<lambda>j. if j = i then world ! j else Fin (x j)) [0, 1, 2, 3])"
proof -
  have k: "validate_and_convert rt (b ! j) (- h) h name = Inr (Fin (x j))"
    if "j < 4" "j \<noteq> i" "h = (if even j then 180 else 90)" for j h name
  proof -
    from o that(1,2) have "py_float rt (b ! j) = Inr (Fin (x j))"
      and "\<bar>x j\<bar> \<le> (if even j then 180 else 90)" by blast+
    with that(3) show ?thesis using validate_in_range by blast
  qed
  have w: "validate_and_convert rt (b ! i) lo hi name
             = Inr (Fin (if contains name (u ''min'') then lo else hi))" for lo hi name
    using r by (rule validate_rejected)
  from i consider "i = 0" | "i = 1" | "i = 2" | "i = 3" by linarith
  then show ?thesis
  proof cases
    case 1
    have "validate_and_convert rt (b ! 0) (- 180) 180 (u ''longitude minimum'') = Inr (Fin (- 180))"
      using w[of "- 180" 180 "u ''longitude minimum''"] 1 by (simp add: coordinate_names)
    moreover have "validate_and_convert rt (b ! 1) (- 90) 90 (u ''latitude minimum'') = Inr (Fin (x 1))"
      using 1 by (intro k) simp_all
    moreover have "validate_and_convert rt (b ! 2) (- 180) 180 (u ''longitude maximum'') = Inr (Fin (x 2))"
      using 1 by (intro k) simp_all
    moreover have "validate_and_convert rt (b ! 3) (- 90) 90 (u ''latitude maximum'') = Inr (Fin (x 3))"
      using 1 by (intro k) simp_all
    ultimately have "box_of rt b = Inr [Fin (- 180), Fin (x 1), Fin (x 2), Fin (x 3)]"
      by (rule box_of_four[OF n l])
    with 1 show ?thesis by (simp add: world_def)
  next
    case 2
    have "validate_and_convert rt (b ! 0) (- 180) 180 (u ''longitude minimum'') = Inr (Fin (x 0))"
      using 2 by (intro k) simp_all
    moreover have "validate_and_convert rt (b ! 1) (- 90) 90 (u ''latitude minimum'') = Inr (Fin (- 90))"
      using w[of "- 90" 90 "u ''latitude minimum''"] 2 by (simp add: coordinate_names)
    moreover have "validate_and_convert rt (b ! 2) (- 180) 180 (u ''longitude maximum'') = Inr (Fin (x 2))"
      using 2 by (intro k) simp_all
    moreover have "validate_and_convert rt (b ! 3) (- 90) 90 (u ''latitude maximum'') = Inr (Fin (x 3))"
      using 2 by (intro k) simp_all
    ultimately have "box_of rt b = Inr [Fin (x 0), Fin (- 90), Fin (x 2), Fin (x 3)]"
      by (rule box_of_four[OF n l])
    with 2 show ?thesis by (simp add: world_def)
  next
    case 3
    have "validate_and_convert rt (b ! 0) (- 180) 180 (u ''longitude minimum'') = Inr (Fin (x 0))"
      using 3 by (intro k) simp_all
    moreover have "validate_and_convert rt (b ! 1) (- 90) 90 (u ''latitude minimum'') = Inr (Fin (x 1))"
      using 3 by (intro k) simp_all
    moreover have "validate_and_convert rt (b ! 2) (- 180) 180 (u ''longitude maximum'') = Inr (Fin 180)"
      using w[of "- 180" 180 "u ''longitude maximum''"] 3 by (simp add: coordinate_names)
    moreover have "validate_and_convert rt (b ! 3) (- 90) 90 (u ''latitude maximum'') = Inr (Fin (x 3))"
      using 3 by (intro k) simp_all
    ultimately have "box_of rt b = Inr [Fin (x 0), Fin (x 1), Fin 180, Fin (x 3)]"
      by (rule box_of_four[OF n l])
    with 3 show ?thesis by (simp add: world_def)
  next
    case 4
    have "validate_and_convert rt (b ! 0) (- 180) 180 (u ''longitude minimum'') = Inr (Fin (x 0))"
      using 4 by (intro k) simp_all
    moreover have "validate_and_convert rt (b ! 1) (- 90) 90 (u ''latitude minimum'') = Inr (Fin (x 1))"
      using 4 by (intro k) simp_all
    moreover have "validate_and_convert rt (b ! 2) (- 180) 180 (u ''longitude maximum'') = Inr (Fin (x 2))"
      using 4 by (intro k) simp_all
    moreover have "validate_and_convert rt (b ! 3) (- 90) 90 (u ''latitude maximum'') = Inr (Fin 90)"
      using w[of "- 90" 90 "u ''latitude maximum''"] 4 by (simp add: coordinate_names)
    ultimately have "box_of rt b = Inr [Fin (x 0), Fin (x 1), Fin (x 2), Fin 90]"
      by (rule box_of_four[OF n l])
    with 4 show ?thesis by (simp add: world_def)
  qed
qed

lemma sample_coordinates:
  "sample_float (VStr (u ''abc'')) = Inl ValueError"
  "sample_float (VInt 0) = Inr (Fin 0)" "sample_float (VInt 1) = Inr (Fin 1)"
  "sample_float (VInt 2) = Inr (Fin 2)" "sample_float (VInt 3) = Inr (Fin 3)"
  "sample_float (VInt 10) = Inr (Fin 10)" "sample_float (VInt 20) = Inr (Fin 20)"
  "sample_float (VInt 30) = Inr (Fin 30)"
  by (simp_all add: feval)

text \<open>
  C1 (amended).  When the source that is used (the bbox, else the geographic extent)
  contains a coordinate that is \<open>None\<close>, a float NaN or a string equal to \<open>nan\<close> in any case,
  the result is exactly the whole world, whatever the other coordinates are.  A coordinate
  that \<open>float()\<close> rejects with a \<open>ValueError\<close> or a \<open>TypeError\<close> does not discard the box: when
  the other three of the first four coordinates are numbers inside their ranges, the
  result keeps them, and the rejected one alone becomes its own bound, the lower one for a
  minimum and the upper one for a maximum (the entry of the world box at its position).
\<close>

theorem finalize_boundaries_nan_like:
  assumes "chosen_source md = Some b"
  shows "(list_ex (nan_like rt) b \<longrightarrow> finalize_boundaries rt md = Inr world)
    \<and> (\<not> list_ex (nan_like rt) b \<and> 4 \<le> length b \<and> i < 4
         \<and> (py_float rt (b ! i) = Inl ValueError \<or> py_float rt (b ! i) = Inl TypeError)
         \<and> (\<forall>j<4. j \<noteq> i \<longrightarrow> py_float rt (b ! j) = Inr (Fin (x j))
                \<and> \<bar>x j\<bar> \<le> (if even j then 180 else 90))
       \<longrightarrow> finalize_boundaries rt md
             = Inr (map (\<lambda>j. if j = i then world ! j else Fin (x j)) [0, 1, 2, 3]))"
  using box_one_rejected[of rt b i x]
  by (auto simp: chosen_source_box[OF assms] box_of_def)

theorem finalize_boundaries_nan_like_witness:
  "chosen_source record_nan = Some [VInt 10, VStr (u ''NaN''), VInt 20, VInt 30]
   \<and> list_ex (nan_like cpython_sample) [VInt 10, VStr (u ''NaN''), VInt 20, VInt 30]
   \<and> finalize_boundaries cpython_sample record_nan = Inr [Fin (- 180), Fin (- 90), Fin 180, Fin 90]
   \<and> chosen_source record_abc = Some [VStr (u ''abc''), VInt 10, VInt 20, VInt 30]
   \<and> \<not> list_ex (nan_like cpython_sample) [VStr (u ''abc''), VInt 10, VInt 20, VInt 30]
   \<and> py_float cpython_sample (VStr (u ''abc'')) = Inl ValueError
   \<and> map (py_float cpython_sample) [VInt 10, VInt 20, VInt 30] = [Inr (Fin 10), Inr (Fin 20), Inr (Fin 30)]
   \<and> finalize_boundaries cpython_sample record_abc = Inr [Fin (- 180), Fin 10, Fin 20, Fin 30]"
proof -
  let ?n = "[VInt 10, VStr (u ''NaN''), VInt 20, VInt 30]"
  let ?b = "[VStr (u ''abc''), VInt 10, VInt 20, VInt 30]"
  let ?x = "\<lambda>j::nat. 10 * real j"
  have a: "chosen_source record_nan = Some ?n"
    by (simp add: chosen_source_def record_nan_def blank_record_def)
  have b: "list_ex (nan_like cpython_sample) ?n"
    by (simp add: nan_like_def pd_isna_def cpython_sample_def sample_lower_def ascii_lower_def u_def)
  from finalize_boundaries_nan_like[OF a, of cpython_sample] b
  have 1: "finalize_boundaries cpython_sample record_nan = Inr world" by blast
  have c: "chosen_source record_abc = Some ?b"
    by (simp add: chosen_source_def record_abc_def blank_record_def)
  have d: "\<not> list_ex (nan_like cpython_sample) ?b"
    by (simp add: nan_like_def pd_isna_def cpython_sample_def sample_lower_def ascii_lower_def u_def)
  have f: "py_float cpython_sample (VStr (u ''abc'')) = Inl ValueError"
    "py_float cpython_sample (VInt 10) = Inr (Fin 10)"
    "py_float cpython_sample (VInt 20) = Inr (Fin 20)"
    "py_float cpython_sample (VInt 30) = Inr (Fin 30)"
    by (simp_all add: cpython_sample_def sample_coordinates)
  have o: "\<forall>j<4. j \<noteq> 0 \<longrightarrow> py_float cpython_sample (?b ! j) = Inr (Fin (?x j))
                \<and> \<bar>?x j\<bar> \<le> (if even j then 180 else 90)"
  proof (intro allI impI)
    fix j :: nat assume "j < 4" "j \<noteq> 0"
    then consider "j = 1" | "j = 2" | "j = 3" by linarith
    then show "py_float cpython_sample (?b ! j) = Inr (Fin (?x j))
                \<and> \<bar>?x j\<bar> \<le> (if even j then 180 else 90)"
      by cases (simp_all add: f)
  qed
  from finalize_boundaries_nan_like[OF c, of cpython_sample 0 ?x] d f(1) o
  have "finalize_boundaries cpython_sample record_abc
          = Inr (map (\<lambda>j. if j = 0 then world ! j else Fin (?x j)) [0, 1, 2, 3])"
    by simp
  then have 2: "finalize_boundaries cpython_sample record_abc = Inr [Fin (- 180), Fin 10, Fin 20, Fin 30]"
    by (simp add: world_def)
  from a b 1 c d f 2 show ?thesis by (simp add: world_def)
qed

text \<open>
  The claim as stated fails for a coordinate that is not numeric and not NaN-like: with
  the bbox \<open>['abc', 10, 20, 30]\<close> only the first coordinate is replaced.
\<close>

theorem finalize_boundaries_non_numeric:
  "py_float cpython_sample (VStr (u ''abc'')) = Inl ValueError
   \<and> chosen_source record_abc = Some [VStr (u ''abc''), VInt 10, VInt 20, VInt 30]
   \<and> finalize_boundaries cpython_sample record_abc = Inr [Fin (- 180), Fin 10, Fin 20, Fin 30]
   \<and> finalize_boundaries cpython_sample record_abc \<noteq> Inr world"
proof -
  have f: "py_float cpython_sample (VStr (u ''abc'')) = Inl ValueError"
    "py_float cpython_sample (VInt 10) = Inr (Fin 10)"
    "py_float cpython_sample (VInt 20) = Inr (Fin 20)"
    "py_float cpython_sample (VInt 30) = Inr (Fin 30)"
    by (simp_all add: cpython_sample_def sample_coordinates)
  have n: "\<not> list_ex (nan_like cpython_sample) [VStr (u ''abc''), VInt 10, VInt 20, VInt 30]"
    by (simp add: nan_like_def pd_isna_def cpython_sample_def sample_lower_def ascii_lower_def u_def)
  have "finalize_boundaries cpython_sample record_abc = Inr [Fin (- 180), Fin 10, Fin 20, Fin 30]"
    using n
    by (simp add: finalize_boundaries_def record_abc_def blank_record_def box_of_def item_at_def
        then_do_def validate_and_convert_def f coordinate_names)
  moreover have "chosen_source record_abc = Some [VStr (u ''abc''), VInt 10, VInt 20, VInt 30]"
    by (simp add: chosen_source_def record_abc_def blank_record_def)
  ultimately show ?thesis using f(1) by (simp add: world_def)
qed

section \<open>Properties of format\_datetime\_to\_iso8601\<close>

lemmas cal_eval = ymd2ord_def ord2ymd_def days_before_year_def days_before_month_def
  days_in_month_def is_leap_def Let_def upt_rec

lemmas iso_eval = iso8601_parse_def digits_at_def zone_of_def digits_value_def ascii_digit_def

lemmas fmt_eval = format_datetime_to_iso8601_def expand_date_def as_utc_def to_utc_def
  add_seconds_def max_ordinal_def then_do_def isoformat_utc_def iso_body_def pad2_def pad4_def
  pad6_def digit_char_def replace_def startswith_def








section \<open>Properties of the temporal window\<close>

lemma widen_window:
  "(start_datetime (widen v md), end_datetime (widen v md)) =
     (Some (case start_datetime md of None \<Rightarrow> v | Some s0 \<Rightarrow> min s0 v),
      Some (case end_datetime md of None \<Rightarrow> v | Some e0 \<Rightarrow> max e0 v))"
  by (auto simp: widen_def Let_def min_def max_def split: option.splits)

lemma two_zones_order:
  "u ''2020-05-01T09:00:00Z'' < u ''2020-05-01T10:00:00+02:00''"
  by (simp add: u_def)

lemma two_zones_scan:
  "start_datetime (scan_key record_two_zones created) = Some (u ''2020-05-01T10:00:00+02:00'')"
  "update_datetimes record_two_zones
     = record_two_zones\<lparr>start_datetime := Some (u ''2020-05-01T09:00:00Z''),
                         end_datetime := Some (u ''2020-05-01T10:00:00+02:00'')\<rparr>"
proof -
  have t: "truthy (Some (u ''2020-05-01T10:00:00+02:00''))" "truthy (Some (u ''2020-05-01T09:00:00Z''))"
    "\<not> truthy None"
    by (simp_all add: truthy_def u_def)
  have n: "\<not> u ''2020-05-01T10:00:00+02:00'' < u ''2020-05-01T09:00:00Z''"
    "u ''2020-05-01T10:00:00+02:00'' \<noteq> u ''2020-05-01T09:00:00Z''"
    using two_zones_order by (simp_all add: not_less_iff_gr_or_eq)
  show "start_datetime (scan_key record_two_zones created) = Some (u ''2020-05-01T10:00:00+02:00'')"
    by (simp add: scan_key_def record_two_zones_def blank_record_def t widen_def)
  show "update_datetimes record_two_zones
     = record_two_zones\<lparr>start_datetime := Some (u ''2020-05-01T09:00:00Z''),
                         end_datetime := Some (u ''2020-05-01T10:00:00+02:00'')\<rparr>"
    by (simp add: update_datetimes_def datetime_keys_def scan_key_def record_two_zones_def
        blank_record_def t widen_def two_zones_order n)
qed

lemma two_zones_instants:
  "format_datetime demo_env (u ''2020-05-01T10:00:00+02:00'') = Inr (may_2020 8)"
  "format_datetime demo_env (u ''2020-05-01T09:00:00Z'') = Inr (may_2020 9)"
  by (simp_all add: format_datetime_def demo_env_def expand_date_def to_utc_def
      add_seconds_def max_ordinal_def then_do_def iso_eval cal_eval u_def may_2020_def)

text \<open>
  C5.  One step of the scan with a present value \<open>v\<close> sets the start to the smaller and the
  end to the larger of the old bound and \<open>v\<close> in the order of Python's \<open><\<close> on \<open>str\<close>, which
  compares code points and not the times that the strings denote.  For a record created at
  10:00 in the zone +02:00 (08:00 UTC) and modified at 09:00 UTC, the scan seeds both bounds
  with the created string and then replaces the start by the modified string, which
  denotes a later time: the start moves from 08:00 UTC to 09:00 UTC, and once
  \<open>format_start_end_datetimes_stac\<close> has converted the two bounds, the start of the window
  comes after its end.
\<close>

theorem update_datetimes_compares_text:
  "start_datetime (widen v md) = Some (case start_datetime md of None \<Rightarrow> v | Some s0 \<Rightarrow> min s0 v)
   \<and> end_datetime (widen v md) = Some (case end_datetime md of None \<Rightarrow> v | Some e0 \<Rightarrow> max e0 v)
   \<and> created record_two_zones = Some (u ''2020-05-01T10:00:00+02:00'')
   \<and> modified record_two_zones = Some (u ''2020-05-01T09:00:00Z'')
   \<and> format_datetime demo_env (u ''2020-05-01T10:00:00+02:00'') = Inr (may_2020 8)
   \<and> format_datetime demo_env (u ''2020-05-01T09:00:00Z'') = Inr (may_2020 9)
   \<and> instant (may_2020 8) < instant (may_2020 9)
   \<and> start_datetime (scan_key record_two_zones created) = Some (u ''2020-05-01T10:00:00+02:00'')
   \<and> start_datetime (update_datetimes record_two_zones) = Some (u ''2020-05-01T09:00:00Z'')
   \<and> end_datetime (update_datetimes record_two_zones) = Some (u ''2020-05-01T10:00:00+02:00'')
   \<and> format_start_end_datetimes_stac demo_env (update_datetimes record_two_zones)
       = Inr ((update_datetimes record_two_zones)\<lparr>start_stamp := Some (may_2020 9),
                                                    end_stamp := Some (may_2020 8)\<rparr>)"
proof -
  have a: "start_datetime (widen v md) = Some (case start_datetime md of None \<Rightarrow> v | Some s0 \<Rightarrow> min s0 v)"
    and b: "end_datetime (widen v md) = Some (case end_datetime md of None \<Rightarrow> v | Some e0 \<Rightarrow> max e0 v)"
    using widen_window[of v md] by simp_all
  have c: "created record_two_zones = Some (u ''2020-05-01T10:00:00+02:00'')"
    "modified record_two_zones = Some (u ''2020-05-01T09:00:00Z'')"
    by (simp_all add: record_two_zones_def blank_record_def)
  have i: "instant (may_2020 8) < instant (may_2020 9)"
    by (simp add: instant_def may_2020_def cal_eval)
  have s: "start_datetime (update_datetimes record_two_zones) = Some (u ''2020-05-01T09:00:00Z'')"
    "end_datetime (update_datetimes record_two_zones) = Some (u ''2020-05-01T10:00:00+02:00'')"
    by (simp_all add: two_zones_scan(2))
  have f: "format_start_end_datetimes_stac demo_env (update_datetimes record_two_zones)
       = Inr ((update_datetimes record_two_zones)\<lparr>start_stamp := Some (may_2020 9),
                                                    end_stamp := Some (may_2020 8)\<rparr>)"
    by (simp add: format_start_end_datetimes_stac_def s two_zones_instants then_do_def)
  from a b c two_zones_instants i two_zones_scan(1) s f show ?thesis by simp
qed

section \<open>Properties of the catalog tree\<close>

lemma Min_insert_pair:
  fixes a b :: "'b::linorder"
  assumes "finite F"
  shows "Min (insert a (insert b F)) = Min (insert (min a b) F)"
proof (cases "F = {}")
  case True
  then show ?thesis by simp
next
  case False
  with assms have "Min (insert a (insert b F)) = min a (min b (Min F))" by simp
  moreover from False assms have "Min (insert (min a b) F) = min (min a b) (Min F)" by simp
  ultimately show ?thesis by (simp only: min.assoc)
qed

lemma foldl_min_key:
  fixes f :: "'a \<Rightarrow> 'b::linorder"
  shows "foldl (\<lambda>cur x. if f x < f cur then x else cur) d rest \<in> set (d # rest)
       \<and> f (foldl (\<lambda>cur x. if f x < f cur then x else cur) d rest) = Min (f ` set (d # rest))"
proof (induction rest arbitrary: d)
  case Nil then show ?case by simp
next
  case (Cons x xs)
  define d' where "d' = (if f x < f d then x else d)"
  have fold: "foldl (\<lambda>cur x. if f x < f cur then x else cur) d (x # xs)
            = foldl (\<lambda>cur x. if f x < f cur then x else cur) d' xs"
    unfolding d'_def by (simp only: foldl_Cons)
  have fd: "f d' = min (f d) (f x)"
  proof (cases "f x < f d")
    case True
    then have "min (f d) (f x) = f x" by (simp add: min_absorb2 less_imp_le)
    with True show ?thesis by (simp add: d'_def)
  next
    case False
    then have "min (f d) (f x) = f d" by (simp add: min_absorb1 not_less)
    with False show ?thesis by (simp add: d'_def)
  qed
  have mem: "d' = d \<or> d' = x" unfolding d'_def by (cases "f x < f d") simp_all
  from Cons[of d'] have ih1: "foldl (\<lambda>cur x. if f x < f cur then x else cur) d' xs \<in> set (d' # xs)"
    and ih2: "f (foldl (\<lambda>cur x. if f x < f cur then x else cur) d' xs) = Min (f ` set (d' # xs))"
    by blast+
  have "f ` set (d' # xs) = insert (min (f d) (f x)) (f ` set xs)" using fd by simp
  moreover have "f ` set (d # x # xs) = insert (f d) (insert (f x) (f ` set xs))" by simp
  ultimately have "Min (f ` set (d' # xs)) = Min (f ` set (d # x # xs))"
    using Min_insert_pair[of "f ` set xs" "f d" "f x"] by simp
  with ih2 have a: "f (foldl (\<lambda>cur x. if f x < f cur then x else cur) d' xs) = Min (f ` set (d # x # xs))"
    by simp
  from ih1 mem have b: "foldl (\<lambda>cur x. if f x < f cur then x else cur) d' xs \<in> set (d # x # xs)"
    by auto
  from a b show ?case unfolding fold by blast
qed

lemma Max_insert_pair:
  fixes a b :: "'b::linorder"
  assumes "finite F"
  shows "Max (insert a (insert b F)) = Max (insert (max a b) F)"
proof (cases "F = {}")
  case True
  then show ?thesis by simp
next
  case False
  with assms have "Max (insert a (insert b F)) = max a (max b (Max F))" by simp
  moreover from False assms have "Max (insert (max a b) F) = max (max a b) (Max F)" by simp
  ultimately show ?thesis by (simp only: max.assoc)
qed

lemma foldl_max_key:
  fixes f :: "'a \<Rightarrow> 'b::linorder"
  shows "foldl (\<lambda>cur x. if f cur < f x then x else cur) d rest \<in> set (d # rest)
       \<and> f (foldl (\<lambda>cur x. if f cur < f x then x else cur) d rest) = Max (f ` set (d # rest))"
proof (induction rest arbitrary: d)
  case Nil then show ?case by simp
next
  case (Cons x xs)
  define d' where "d' = (if f d < f x then x else d)"
  have fold: "foldl (\<lambda>cur x. if f cur < f x then x else cur) d (x # xs)
            = foldl (\<lambda>cur x. if f cur < f x then x else cur) d' xs"
    unfolding d'_def by (simp only: foldl_Cons)
  have fd: "f d' = max (f d) (f x)"
  proof (cases "f d < f x")
    case True
    then have "max (f d) (f x) = f x" by (simp add: max_absorb2 less_imp_le)
    with True show ?thesis by (simp add: d'_def)
  next
    case False
    then have "max (f d) (f x) = f d" by (simp add: max_absorb1 not_less)
    with False show ?thesis by (simp add: d'_def)
  qed
  have mem: "d' = d \<or> d' = x" unfolding d'_def by (cases "f d < f x") simp_all
  from Cons[of d'] have ih1: "foldl (\<lambda>cur x. if f cur < f x then x else cur) d' xs \<in> set (d' # xs)"
    and ih2: "f (foldl (\<lambda>cur x. if f cur < f x then x else cur) d' xs) = Max (f ` set (d' # xs))"
    by blast+
  have "f ` set (d' # xs) = insert (max (f d) (f x)) (f ` set xs)" using fd by simp
  moreover have "f ` set (d # x # xs) = insert (f d) (insert (f x) (f ` set xs))" by simp
  ultimately have "Max (f ` set (d' # xs)) = Max (f ` set (d # x # xs))"
    using Max_insert_pair[of "f ` set xs" "f d" "f x"] by simp
  with ih2 have a: "f (foldl (\<lambda>cur x. if f cur < f x then x else cur) d' xs) = Max (f ` set (d # x # xs))"
    by simp
  from ih1 mem have b: "foldl (\<lambda>cur x. if f cur < f x then x else cur) d' xs \<in> set (d # x # xs)"
    by auto
  from a b show ?case unfolding fold by blast
qed

lemma min_from_fin_seed:
  "min_from (Fin s) (map Fin xs) = Fin (Min (insert s (set xs)))"
proof (induction xs arbitrary: s)
  case Nil then show ?case by (simp add: min_from_def)
next
  case (Cons x xs)
  have "min_from (Fin s) (map Fin (x # xs)) = min_from (Fin (min s x)) (map Fin xs)"
    by (simp add: min_from_def min_def)
  also have "\<dots> = Fin (Min (insert (min s x) (set xs)))" by (rule Cons)
  also have "Min (insert (min s x) (set xs)) = Min (insert s (set (x # xs)))"
  proof (cases "xs = []")
    case True then show ?thesis by (simp add: min.commute)
  next
    case False then show ?thesis by (simp add: min.assoc)
  qed
  finally show ?case .
qed

lemma max_from_fin_seed:
  "max_from (Fin s) (map Fin xs) = Fin (Max (insert s (set xs)))"
proof (induction xs arbitrary: s)
  case Nil then show ?case by (simp add: max_from_def)
next
  case (Cons x xs)
  have "max_from (Fin s) (map Fin (x # xs)) = max_from (Fin (max s x)) (map Fin xs)"
    by (simp add: max_from_def max_def)
  also have "\<dots> = Fin (Max (insert (max s x) (set xs)))" by (rule Cons)
  also have "Max (insert (max s x) (set xs)) = Max (insert s (set (x # xs)))"
  proof (cases "xs = []")
    case True then show ?thesis by (simp add: max.commute)
  next
    case False then show ?thesis by (simp add: max.assoc)
  qed
  finally show ?case .
qed

lemma min_from_fin: "xs \<noteq> [] \<Longrightarrow> min_from PInf (map Fin xs) = Fin (Min (set xs))"
proof (cases xs)
  case Nil then show "xs \<noteq> [] \<Longrightarrow> ?thesis" by simp
next
  case (Cons x rest)
  have "min_from PInf (map Fin (x # rest)) = min_from (Fin x) (map Fin rest)"
    by (simp add: min_from_def)
  with Cons show ?thesis by (simp add: min_from_fin_seed)
qed

lemma max_from_fin: "xs \<noteq> [] \<Longrightarrow> max_from NInf (map Fin xs) = Fin (Max (set xs))"
proof (cases xs)
  case Nil then show "xs \<noteq> [] \<Longrightarrow> ?thesis" by simp
next
  case (Cons x rest)
  have "max_from NInf (map Fin (x # rest)) = max_from (Fin x) (map Fin rest)"
    by (simp add: max_from_def)
  with Cons show ?thesis by (simp add: max_from_fin_seed)
qed

lemma finite_box_coords:
  assumes "finite_box b"
  shows "fst b = Fin (real_of (fst b))" "fst (snd b) = Fin (real_of (fst (snd b)))"
    "fst (snd (snd b)) = Fin (real_of (fst (snd (snd b))))"
    "snd (snd (snd b)) = Fin (real_of (snd (snd (snd b))))"
  using assms by (auto simp: finite_box_def real_of_def split: prod.splits pyfloat.splits)

lemma spatial_union:
  assumes "items \<noteq> []" and "list_all (\<lambda>i. finite_box (item_bbox i)) items"
  shows "spatial (extent_from_items items) = [union_of_boxes items]"
proof -
  have m: "map (\<lambda>i. g (item_bbox i)) items = map Fin (map (\<lambda>i. real_of (g (item_bbox i))) items)"
    if "\<And>b. finite_box b \<Longrightarrow> g b = Fin (real_of (g b))" for g
    using assms(2) that by (induction items) auto
  have ne: "map h items \<noteq> []" for h :: "stac_item \<Rightarrow> real" using assms(1) by simp
  show ?thesis
    unfolding extent_from_items_def union_of_boxes_def
    by (simp add: m[of fst, OF finite_box_coords(1)] m[of "\<lambda>b. fst (snd b)", OF finite_box_coords(2)]
        m[of "\<lambda>b. fst (snd (snd b))", OF finite_box_coords(3)]
        m[of "\<lambda>b. snd (snd (snd b))", OF finite_box_coords(4)]
        min_from_fin[OF ne] max_from_fin[OF ne] del: map_map)
qed

lemma earliest_min:
  assumes "ds \<noteq> []"
  shows "\<exists>d. earliest ds = Some d \<and> instant d = Min (instant ` set (map with_utc ds))"
proof -
  from assms obtain x rest where x: "map with_utc ds = x # rest" by (cases ds) auto
  with foldl_min_key[of instant x rest] show ?thesis by (simp add: earliest_def)
qed

lemma latest_max:
  assumes "ds \<noteq> []"
  shows "\<exists>d. latest ds = Some d \<and> instant d = Max (instant ` set (map with_utc ds))"
proof -
  from assms obtain x rest where x: "map with_utc ds = x # rest" by (cases ds) auto
  with foldl_max_key[of instant x rest] show ?thesis by (simp add: latest_def)
qed

lemma insert_new_item_success:
  assumes "insert_new_item m c ident box = Inr r" and "returned r \<noteq> None"
  shows "\<exists>i. item_id i = ident \<and> item_bbox i = box \<and> collection_after r = attach_item c i"
proof -
  obtain x0 y0 x1 y1 where bx: "box = (x0, y0, x1, y1)" by (cases box) auto
  from assms obtain kw pn rs ps where k: "subjects m = Some kw" "provider m = Some ((pn, rs) # ps)"
    unfolding insert_new_item_def by (auto split: option.splits list.splits)
  let ?i = "new_stac_item m c ident box kw pn"
  have "item_id ?i = ident" "item_bbox ?i = box" by (simp_all add: new_stac_item_def bx)
  moreover from assms k have "collection_after r = attach_item c ?i"
    unfolding insert_new_item_def by (auto simp: Let_def split: if_splits)
  ultimately show ?thesis by blast
qed

lemma add_item_success:
  assumes "add_item rt e md c = Inr r" and "returned r \<noteq> None"
  shows "\<exists>i box. item_id i = custom_slugify rt (the (title md))
           \<and> finalize_boundaries rt md = Inr [fst box, fst (snd box), fst (snd (snd box)), snd (snd (snd box))]
           \<and> item_bbox i = box
           \<and> collection_after r = attach_item c i"
proof -
  from assms have t: "truthy (title md)"
    "custom_slugify rt (the (title md)) \<notin> set (map item_id (coll_items c))"
    by (auto simp: add_item_def Let_def split: if_splits)
  with assms(1) have 1: "then_do (finalize_boundaries rt md) (\<lambda>box.
                (case box of
                   [lon_min, lat_min, lon_max, lat_max] \<Rightarrow>
                     then_do (format_start_end_datetimes_stac e (update_datetimes md)) (\<lambda>m.
                       insert_new_item m c (custom_slugify rt (the (title md)))
                         (lon_min, lat_min, lon_max, lat_max))
                 | _ \<Rightarrow> Inl ValueError)) = Inr r"
    by (simp add: add_item_def)
  then obtain box where b: "finalize_boundaries rt md = Inr box"
    by (cases "finalize_boundaries rt md") (simp_all add: then_do_def)
  with 1 have 2: "(case box of
                   [lon_min, lat_min, lon_max, lat_max] \<Rightarrow>
                     then_do (format_start_end_datetimes_stac e (update_datetimes md)) (\<lambda>m.
                       insert_new_item m c (custom_slugify rt (the (title md)))
                         (lon_min, lat_min, lon_max, lat_max))
                 | _ \<Rightarrow> Inl ValueError) = Inr r"
    by (simp add: then_do_def)
  then obtain x0 y0 x1 y1 where bx: "box = [x0, y0, x1, y1]"
    by (simp split: list.splits)
  with 2 have 3: "then_do (format_start_end_datetimes_stac e (update_datetimes md)) (\<lambda>m.
                       insert_new_item m c (custom_slugify rt (the (title md))) (x0, y0, x1, y1)) = Inr r"
    by simp
  then obtain m where m: "format_start_end_datetimes_stac e (update_datetimes md) = Inr m"
    by (cases "format_start_end_datetimes_stac e (update_datetimes md)") (simp_all add: then_do_def)
  with 3 have "insert_new_item m c (custom_slugify rt (the (title md))) (x0, y0, x1, y1) = Inr r"
    by (simp add: then_do_def)
  from insert_new_item_success[OF this assms(2)] b bx show ?thesis by fastforce
qed

lemma demo_start: "format_datetime demo_env default_start = Inr epoch"
  by (simp add: format_datetime_def demo_env_def default_start_def expand_date_def to_utc_def
      add_seconds_def max_ordinal_def then_do_def iso_eval cal_eval u_def epoch_def)

lemma demo_end: "format_datetime demo_env default_end = Inr far_future"
  by (simp add: format_datetime_def demo_env_def default_end_def expand_date_def to_utc_def
      add_seconds_def max_ordinal_def then_do_def iso_eval cal_eval u_def far_future_def)

lemma dated_undated:
  assumes "created md = None" "date md = None" "issued md = None" "modified md = None"
    "start_datetime md = None" "end_datetime md = None"
  shows "format_start_end_datetimes_stac demo_env (update_datetimes md) = Inr (dated md)"
proof -
  have "update_datetimes md = md\<lparr>start_datetime := Some default_start, end_datetime := Some default_end\<rparr>"
    using assms
    by (simp add: update_datetimes_def datetime_keys_def scan_key_def truthy_def
        default_start_def default_end_def u_def)
  then show ?thesis
    by (simp add: format_start_end_datetimes_stac_def demo_start demo_end then_do_def dated_def)
qed

lemma demo_boxes:
  "finalize_boundaries cpython_sample record_sst = Inr [Fin 0, Fin 0, Fin 1, Fin 1]"
  "finalize_boundaries cpython_sample record_waves = Inr [Fin 2, Fin 2, Fin 3, Fin 3]"
proof -
  have f: "py_float cpython_sample (VInt 0) = Inr (Fin 0)" "py_float cpython_sample (VInt 1) = Inr (Fin 1)"
    "py_float cpython_sample (VInt 2) = Inr (Fin 2)" "py_float cpython_sample (VInt 3) = Inr (Fin 3)"
    by (simp_all add: cpython_sample_def sample_coordinates)
  have n: "\<not> list_ex (nan_like cpython_sample) [VInt 0, VInt 0, VInt 1, VInt 1]"
    "\<not> list_ex (nan_like cpython_sample) [VInt 2, VInt 2, VInt 3, VInt 3]"
    by (simp_all add: nan_like_def pd_isna_def)
  show "finalize_boundaries cpython_sample record_sst = Inr [Fin 0, Fin 0, Fin 1, Fin 1]"
    using n(1)
    by (simp add: finalize_boundaries_def record_sst_def blank_record_def box_of_def item_at_def
        then_do_def validate_and_convert_def f)
  show "finalize_boundaries cpython_sample record_waves = Inr [Fin 2, Fin 2, Fin 3, Fin 3]"
    using n(2)
    by (simp add: finalize_boundaries_def record_waves_def blank_record_def box_of_def item_at_def
        then_do_def validate_and_convert_def f)
qed

lemma demo_links:
  "lookup_assets [] [u ''https://example.org/sst.nc''] \<noteq> []"
  "lookup_assets [] [u ''https://example.org/waves.nc''] \<noteq> []"
  by (simp_all add: media_eval)

lemma add_sst:
  "add_item cpython_sample demo_env record_sst physics =
     Inr \<lparr>returned = Some ((dated record_sst)\<lparr>stac_id := Some (u ''sea_surface_temperature''),
                                               stac_collection := Some (u ''emodnet-physics'')\<rparr>),
          record_after = (dated record_sst)\<lparr>stac_id := Some (u ''sea_surface_temperature''),
                                            stac_collection := Some (u ''emodnet-physics'')\<rparr>,
          collection_after = physics1\<rparr>"
proof -
  have t: "title record_sst = Some (u ''Sea Surface Temperature'')" "coll_items physics = []"
    "coll_id physics = u ''emodnet-physics''"
    by (simp_all add: record_sst_def physics_def)
  have d: "format_start_end_datetimes_stac demo_env (update_datetimes record_sst) = Inr (dated record_sst)"
    by (rule dated_undated) (simp_all add: record_sst_def blank_record_def)
  have f: "subjects (dated record_sst) = Some []"
    "provider (dated record_sst) = Some [(u ''EMODnet Physics'', u ''provider'')]"
    "assets (dated record_sst) = [u ''https://example.org/sst.nc'']"
    by (simp_all add: dated_def record_sst_def blank_record_def)
  have a: "item_assets item_sst \<noteq> []"
    using demo_links(1) by (simp add: item_sst_def new_stac_item_def f)
  have "insert_new_item (dated record_sst) physics (u ''sea_surface_temperature'') (Fin 0, Fin 0, Fin 1, Fin 1)
     = Inr \<lparr>returned = Some ((dated record_sst)\<lparr>stac_id := Some (u ''sea_surface_temperature''),
                                               stac_collection := Some (u ''emodnet-physics'')\<rparr>),
          record_after = (dated record_sst)\<lparr>stac_id := Some (u ''sea_surface_temperature''),
                                            stac_collection := Some (u ''emodnet-physics'')\<rparr>,
          collection_after = physics1\<rparr>"
    using a by (simp add: insert_new_item_def f t(3) item_sst_def[symmetric] physics1_def Let_def)
  moreover have "truthy (title record_sst)" by (simp add: t truthy_def u_def)
  ultimately show ?thesis
    by (simp add: add_item_def t sample_slugs demo_boxes d then_do_def Let_def)
qed

lemma add_waves:
  "add_item cpython_sample demo_env record_waves physics1 =
     Inr \<lparr>returned = Some ((dated record_waves)\<lparr>stac_id := Some (u ''wave_height''),
                                                 stac_collection := Some (u ''emodnet-physics'')\<rparr>),
          record_after = (dated record_waves)\<lparr>stac_id := Some (u ''wave_height''),
                                              stac_collection := Some (u ''emodnet-physics'')\<rparr>,
          collection_after = physics2\<rparr>"
proof -
  have t: "title record_waves = Some (u ''Wave Height'')"
    "map item_id (coll_items physics1) = [u ''sea_surface_temperature'']"
    "coll_id physics1 = u ''emodnet-physics''"
    by (simp_all add: record_waves_def physics1_def attach_item_def physics_def item_sst_def
        new_stac_item_def)
  have d: "format_start_end_datetimes_stac demo_env (update_datetimes record_waves) = Inr (dated record_waves)"
    by (rule dated_undated) (simp_all add: record_waves_def blank_record_def)
  have f: "subjects (dated record_waves) = Some []"
    "provider (dated record_waves) = Some [(u ''EMODnet Physics'', u ''provider'')]"
    "assets (dated record_waves) = [u ''https://example.org/waves.nc'']"
    by (simp_all add: dated_def record_waves_def blank_record_def)
  have a: "item_assets item_waves \<noteq> []"
    using demo_links(2) by (simp add: item_waves_def new_stac_item_def f)
  have n: "u ''wave_height'' \<noteq> u ''sea_surface_temperature''" by (simp add: u_def)
  have "insert_new_item (dated record_waves) physics1 (u ''wave_height'') (Fin 2, Fin 2, Fin 3, Fin 3)
     = Inr \<lparr>returned = Some ((dated record_waves)\<lparr>stac_id := Some (u ''wave_height''),
                                                 stac_collection := Some (u ''emodnet-physics'')\<rparr>),
          record_after = (dated record_waves)\<lparr>stac_id := Some (u ''wave_height''),
                                              stac_collection := Some (u ''emodnet-physics'')\<rparr>,
          collection_after = physics2\<rparr>"
    using a by (simp add: insert_new_item_def f t(3) item_waves_def[symmetric] physics2_def Let_def)
  moreover have "truthy (title record_waves)" by (simp add: t truthy_def u_def)
  ultimately show ?thesis
    by (simp add: add_item_def t sample_slugs demo_boxes d then_do_def n Let_def)
qed

lemma physics2_items:
  "map item_bbox (coll_items physics2) = [(Fin 0, Fin 0, Fin 1, Fin 1), (Fin 2, Fin 2, Fin 3, Fin 3)]"
  by (simp add: physics2_def physics1_def physics_def attach_item_def item_sst_def item_waves_def
      new_stac_item_def)

lemma duplicate_demo:
  "truthy (title record_sst_again)
   \<and> custom_slugify cpython_sample (the (title record_sst_again))
         \<in> set (map item_id (coll_items physics1))"
proof -
  have "map item_id (coll_items physics1) = [u ''sea_surface_temperature'']"
    by (simp add: physics1_def attach_item_def physics_def item_sst_def new_stac_item_def)
  moreover have "title record_sst_again = Some (u ''sea surface - temperature'')"
    by (simp add: record_sst_again_def)
  moreover have "truthy (Some (u ''sea surface - temperature''))" by (simp add: truthy_def u_def)
  ultimately show ?thesis by (simp add: sample_slugs)
qed

text \<open>
  C3.  When the slug of the record's title is the identifier of an item of the collection,
  \<open>add_item\<close> returns \<open>None\<close> and leaves the record and the collection as they were: no
  item is created or merged, the items, their number and the extent are unchanged.
\<close>

theorem add_item_rejects_duplicate:
  assumes "truthy (title md)"
    and "custom_slugify rt (the (title md)) \<in> set (map item_id (coll_items c))"
  shows "add_item rt e md c = Inr \<lparr>returned = None, record_after = md, collection_after = c\<rparr>"
  using assms by (simp add: add_item_def)

theorem add_item_rejects_duplicate_witness:
  "add_item cpython_sample demo_env record_sst physics =
     Inr \<lparr>returned = Some ((dated record_sst)\<lparr>stac_id := Some (u ''sea_surface_temperature''),
                                               stac_collection := Some (u ''emodnet-physics'')\<rparr>),
          record_after = (dated record_sst)\<lparr>stac_id := Some (u ''sea_surface_temperature''),
                                            stac_collection := Some (u ''emodnet-physics'')\<rparr>,
          collection_after = physics1\<rparr>
   \<and> map item_id (coll_items physics1) = [u ''sea_surface_temperature'']
   \<and> add_item cpython_sample demo_env record_sst_again physics1 =
       Inr \<lparr>returned = None, record_after = record_sst_again, collection_after = physics1\<rparr>"
proof -
  have i: "map item_id (coll_items physics1) = [u ''sea_surface_temperature'']"
    by (simp add: physics1_def attach_item_def physics_def item_sst_def new_stac_item_def)
  from duplicate_demo have h1: "truthy (title record_sst_again)"
    and h2: "custom_slugify cpython_sample (the (title record_sst_again))
               \<in> set (map item_id (coll_items physics1))"
    by blast+
  from add_item_rejects_duplicate[OF h1 h2, of demo_env] add_sst i show ?thesis by blast
qed

text \<open>
  C6.  After a successful insertion the collection has the old items followed by the new
  one, and its extent is \<open>Extent.from_items\<close> of all of them: for boxes of finite numbers
  the spatial extent is the union of the boxes, and the temporal extent runs from the
  earliest start to the latest end.
\<close>

theorem add_item_recomputes_extent:
  assumes "add_item rt e md c = Inr r" and "returned r \<noteq> None"
  shows "coll_extent (collection_after r) = extent_from_items (coll_items (collection_after r))
    \<and> (\<exists>i. coll_items (collection_after r) = coll_items c @ [i])
    \<and> (list_all (\<lambda>i. finite_box (item_bbox i)) (coll_items (collection_after r)) \<longrightarrow>
         spatial (coll_extent (collection_after r)) = [union_of_boxes (coll_items (collection_after r))])
    \<and> (\<exists>s t. temporal (coll_extent (collection_after r)) = [(Some s, Some t)]
          \<and> instant s = Min (instant ` set (map with_utc
                (item_datetimes (coll_items (collection_after r))
                 @ map item_start_datetime (coll_items (collection_after r)))))
          \<and> instant t = Max (instant ` set (map with_utc
                (item_datetimes (coll_items (collection_after r))
                 @ map item_end_datetime (coll_items (collection_after r))))))"
proof -
  from add_item_success[OF assms] obtain i where i: "collection_after r = attach_item c i" by blast
  let ?items = "coll_items (collection_after r)"
  from i have items: "?items = coll_items c @ [i]" by (simp add: attach_item_def)
  from i have ext: "coll_extent (collection_after r) = extent_from_items ?items"
    by (simp add: attach_item_def)
  from items have ne: "?items \<noteq> []" by simp
  have sp: "list_all (\<lambda>i. finite_box (item_bbox i)) ?items \<longrightarrow>
         spatial (coll_extent (collection_after r)) = [union_of_boxes ?items]"
    using spatial_union[OF ne] ext by simp
  from ne have n1: "item_datetimes ?items @ map item_start_datetime ?items \<noteq> []"
    and n2: "item_datetimes ?items @ map item_end_datetime ?items \<noteq> []" by simp_all
  from earliest_min[OF n1] obtain s where
    s: "earliest (item_datetimes ?items @ map item_start_datetime ?items) = Some s"
       "instant s = Min (instant ` set (map with_utc (item_datetimes ?items @ map item_start_datetime ?items)))"
    by blast
  from latest_max[OF n2] obtain t where
    t: "latest (item_datetimes ?items @ map item_end_datetime ?items) = Some t"
       "instant t = Max (instant ` set (map with_utc (item_datetimes ?items @ map item_end_datetime ?items)))"
    by blast
  from ext s(1) t(1) have "temporal (coll_extent (collection_after r)) = [(Some s, Some t)]"
    by (simp add: extent_from_items_def)
  with s(2) t(2) have tm: "\<exists>s t. temporal (coll_extent (collection_after r)) = [(Some s, Some t)]
          \<and> instant s = Min (instant ` set (map with_utc
                (item_datetimes ?items @ map item_start_datetime ?items)))
          \<and> instant t = Max (instant ` set (map with_utc
                (item_datetimes ?items @ map item_end_datetime ?items)))"
    by blast
  from ext items sp tm show ?thesis by blast
qed

theorem add_item_recomputes_extent_witness:
  "add_item cpython_sample demo_env record_waves physics1 =
     Inr \<lparr>returned = Some ((dated record_waves)\<lparr>stac_id := Some (u ''wave_height''),
                                                 stac_collection := Some (u ''emodnet-physics'')\<rparr>),
          record_after = (dated record_waves)\<lparr>stac_id := Some (u ''wave_height''),
                                              stac_collection := Some (u ''emodnet-physics'')\<rparr>,
          collection_after = physics2\<rparr>
   \<and> map item_bbox (coll_items physics2) = [(Fin 0, Fin 0, Fin 1, Fin 1), (Fin 2, Fin 2, Fin 3, Fin 3)]
   \<and> spatial (coll_extent physics2) = [[Fin 0, Fin 0, Fin 3, Fin 3]]"
proof -
  let ?r = "\<lparr>returned = Some ((dated record_waves)\<lparr>stac_id := Some (u ''wave_height''),
                                                 stac_collection := Some (u ''emodnet-physics'')\<rparr>),
          record_after = (dated record_waves)\<lparr>stac_id := Some (u ''wave_height''),
                                              stac_collection := Some (u ''emodnet-physics'')\<rparr>,
          collection_after = physics2\<rparr>"
  have ok: "returned ?r \<noteq> None" by simp
  from add_item_recomputes_extent[OF add_waves ok]
  have u: "list_all (\<lambda>i. finite_box (item_bbox i)) (coll_items physics2) \<longrightarrow>
         spatial (coll_extent physics2) = [union_of_boxes (coll_items physics2)]"
    unfolding add_item_result.select_convs by blast
  have f: "list_all (\<lambda>i. finite_box (item_bbox i)) (coll_items physics2)"
    using physics2_items
    by (simp add: physics2_def physics1_def physics_def attach_item_def finite_box_def)
  have "union_of_boxes (coll_items physics2) = [Fin 0, Fin 0, Fin 3, Fin 3]"
    using physics2_items
    by (simp add: union_of_boxes_def physics2_def physics1_def physics_def attach_item_def real_of_def)
  with u f have "spatial (coll_extent physics2) = [[Fin 0, Fin 0, Fin 3, Fin 3]]" by simp
  with add_waves physics2_items show ?thesis by blast
qed

text \<open>
  C4.  \<open>add_or_use_collection\<close> raises when it creates a collection for a record none of
  whose provider names contains \<open>EMODnet\<close>: \<open>collection_convention\<close> is read unassigned.
  Nothing on the way up to \<open>process_records\<close> catches the error.
\<close>

theorem add_or_use_collection_unbound_convention:
  "add_or_use_collection rt biodiversity (u ''Biology'') record_vliz = Inl UnboundLocalError"
proof -
  have p: "update_providers record_vliz =
      Inr (record_vliz\<lparr>provider := Some [(u ''Unknown'', u ''provider''),
                                          (u ''Flanders Marine Institute'', u ''creator'')]\<rparr>)"
    by (simp add: update_providers_def record_vliz_def blank_record_def truthy_def u_def)
  have c: "\<not> contains (u ''Unknown'') (u ''EMODnet'')"
    "\<not> contains (u ''Flanders Marine Institute'') (u ''EMODnet'')"
    by (simp_all add: startswith_def u_def)
  have n: "u ''Unknown'' \<noteq> u ''Flanders Marine Institute''" by (simp add: u_def)
  show ?thesis
    by (simp add: add_or_use_collection_def p then_do_def c n biodiversity_def Let_def)
qed

end
